theory Spec2Isabelle
  imports Main "HOL-Library.Multiset"
begin

section \<open>Go strings as byte lists\<close>

text \<open>
  A Go string is a sequence of bytes; \<open>len\<close> counts bytes and the functions of package
  \<open>strings\<close> used by the executor work on the UTF-8 encoding. A \<^typ>\<open>string\<close> of
  HOL is a list of 8-bit characters, so a Go string is modelled byte by byte and a Chinese
  literal of the source is written as the list of its UTF-8 bytes.
\<close>

abbreviation LF :: char where "LF \<equiv> CHR 0x0A"

text \<open>\<open>fmt.Sprintf("%d", n)\<close> for a non-negative integer.\<close>

definition digit_char :: "nat \<Rightarrow> char" where
  "digit_char d = ''0123456789'' ! d"

function itoa :: "nat \<Rightarrow> string" where
  "itoa n = (if n < 10 then [digit_char n] else itoa (n div 10) @ [digit_char (n mod 10)])"
  by pat_completeness auto
termination
  by (relation "measure id") auto

declare itoa.simps [simp del]

section \<open>Package \<open>strings\<close>\<close>

text \<open>
  The functions of Go's package \<open>strings\<close> that the executor calls, on byte lists.
  \<open>ToLower\<close> and \<open>TrimSpace\<close> are modelled on ASCII: they agree with Go on every
  string whose characters beyond ASCII have no lower-case form and are no Unicode space,
  which holds for the CJK text and punctuation of the literals below.
  \<open>ReplaceAll\<close> and \<open>Split\<close> are only called with a non-empty pattern or
  separator in the source; with an empty one the model returns its input.
\<close>

definition lowerChar :: "char \<Rightarrow> char" where
  "lowerChar c =
     (let n = (of_char c :: nat) in if 65 \<le> n \<and> n \<le> 90 then char_of (n + 32) else c)"

definition ToLower :: "string \<Rightarrow> string" where
  "ToLower s = map lowerChar s"

definition HasPrefix :: "string \<Rightarrow> string \<Rightarrow> bool" where
  "HasPrefix s pre \<longleftrightarrow> take (length pre) s = pre"

fun Contains :: "string \<Rightarrow> string \<Rightarrow> bool" where
  "Contains [] sub = (sub = [])"
| "Contains (c # cs) sub = (HasPrefix (c # cs) sub \<or> Contains cs sub)"



function ReplaceAll :: "string \<Rightarrow> string \<Rightarrow> string \<Rightarrow> string" where
  "ReplaceAll s old new =
     (if old = [] \<or> s = [] then s
      else if HasPrefix s old then new @ ReplaceAll (drop (length old) s) old new
      else hd s # ReplaceAll (tl s) old new)"
  by pat_completeness auto
termination
  by (relation "measure (\<lambda>(s, old, new). length s)") auto

declare ReplaceAll.simps [simp del]

definition isSpace :: "char \<Rightarrow> bool" where
  "isSpace c \<longleftrightarrow> c \<in> set [CHR 0x09, CHR 0x0A, CHR 0x0B, CHR 0x0C, CHR 0x0D, CHR 0x20]"

definition TrimSpace :: "string \<Rightarrow> string" where
  "TrimSpace s = rev (dropWhile isSpace (rev (dropWhile isSpace s)))"

function splitFrom :: "string \<Rightarrow> string \<Rightarrow> string \<Rightarrow> string list" where
  "splitFrom sep acc s =
     (if s = [] then [acc]
      else if sep \<noteq> [] \<and> HasPrefix s sep then acc # splitFrom sep [] (drop (length sep) s)
      else splitFrom sep (acc @ [hd s]) (tl s))"
  by pat_completeness auto
termination
  by (relation "measure (\<lambda>(sep, acc, s). length s)") auto

declare splitFrom.simps [simp del]

definition Split :: "string \<Rightarrow> string \<Rightarrow> string list" where
  "Split s sep = splitFrom sep [] s"

fun Join :: "string list \<Rightarrow> string \<Rightarrow> string" where
  "Join [] sep = []"
| "Join [x] sep = x"
| "Join (x # y # rest) sep = x @ sep @ Join (y # rest) sep"

text \<open>A chain of \<open>s = strings.ReplaceAll(s, tok, "")\<close>, in the order of the source.\<close>

definition removeEach :: "string list \<Rightarrow> string \<Rightarrow> string" where
  "removeEach toks s = foldl (\<lambda>acc tok. ReplaceAll acc tok []) s toks"

section \<open>Content validity classification\<close>

text \<open>
  The string constants of the classifiers. The Chinese ones are given by their UTF-8
  bytes; the code points of each are listed with it.
\<close>

text \<open>The placeholder sentinel: "__NO_WORK_ACTIVITY_PLACEHOLDER__".\<close>

definition placeholderMarker :: string where
  "placeholderMarker = ''__NO_WORK_ACTIVITY_PLACEHOLDER__''"

text \<open>Left black lenticular bracket: U+3010.\<close>

definition lbracket :: string where
  "lbracket = [CHR 0xE3, CHR 0x80, CHR 0x90]"

text \<open>Right black lenticular bracket: U+3011.\<close>

definition rbracket :: string where
  "rbracket = [CHR 0xE3, CHR 0x80, CHR 0x91]"

text \<open>The punctuation removed from the remaining text, in the order of \<open>isInvalidSummary\<close> and \<open>hasValidContent\<close>: U+FF08; U+FF09; "("; ")"; U+3002; "."; U+FF0C; ","; " ".\<close>

definition punctuation :: "string list" where
  "punctuation =
     [[CHR 0xEF, CHR 0xBC, CHR 0x88],
      [CHR 0xEF, CHR 0xBC, CHR 0x89],
      ''('',
      '')'',
      [CHR 0xE3, CHR 0x80, CHR 0x82],
      ''.'',
      [CHR 0xEF, CHR 0xBC, CHR 0x8C],
      '','',
      '' '']"

text \<open>The same punctuation in the order of \<open>hasValidWorkActivity\<close>: U+3002; "."; U+FF0C; ","; U+FF08; U+FF09; "("; ")"; " ".\<close>

definition punctuationW :: "string list" where
  "punctuationW =
     [[CHR 0xE3, CHR 0x80, CHR 0x82],
      ''.'',
      [CHR 0xEF, CHR 0xBC, CHR 0x8C],
      '','',
      [CHR 0xEF, CHR 0xBC, CHR 0x88],
      [CHR 0xEF, CHR 0xBC, CHR 0x89],
      ''('',
      '')'',
      '' '']"

text \<open>\<open>invalidPatterns\<close> of \<open>isInvalidSummary\<close>: U+8BE5 U+65F6 U+95F4 U+6BB5 U+5185 U+6CA1 U+6709 U+68C0 U+6D4B U+5230 U+6709 U+6548 U+5DE5 U+4F5C U+6D3B U+52A8 U+FF08 U+6240 U+6709 U+622A U+56FE U+5747 U+4E3A U+684C U+9762 U+6216 U+9501 U+5C4F U+72B6 U+6001 U+FF09; U+8BE5 U+65F6 U+95F4 U+6BB5 U+5185 U+6CA1 U+6709 U+68C0 U+6D4B U+5230 U+6709 U+6548 U+5DE5 U+4F5C U+6D3B U+52A8; U+6CA1 U+6709 U+68C0 U+6D4B U+5230 U+6709 U+6548 U+5DE5 U+4F5C U+6D3B U+52A8 U+FF08 U+6240 U+6709 U+622A U+56FE U+5747 U+4E3A U+684C U+9762 U+6216 U+9501 U+5C4F U+72B6 U+6001 U+FF09; U+6CA1 U+6709 U+68C0 U+6D4B U+5230 U+6709 U+6548 U+5DE5 U+4F5C U+6D3B U+52A8; U+6CA1 U+6709 U+6709 U+6548 U+5DE5 U+4F5C U+6D3B U+52A8; U+672A U+68C0 U+6D4B U+5230 U+65B0 U+7684 U+6709 U+6548 U+5DE5 U+4F5C U+6D3B U+52A8; U+672A U+68C0 U+6D4B U+5230 U+6709 U+6548 U+5DE5 U+4F5C U+6D3B U+52A8.\<close>

definition invalidPatterns :: "string list" where
  "invalidPatterns =
     [[CHR 0xE8, CHR 0xAF, CHR 0xA5, CHR 0xE6, CHR 0x97, CHR 0xB6, CHR 0xE9, CHR 0x97, CHR 0xB4, CHR 0xE6, CHR 0xAE, CHR 0xB5, CHR 0xE5, CHR 0x86, CHR 0x85, CHR 0xE6, CHR 0xB2, CHR 0xA1, CHR 0xE6, CHR 0x9C, CHR 0x89, CHR 0xE6, CHR 0xA3, CHR 0x80, CHR 0xE6, CHR 0xB5, CHR 0x8B, CHR 0xE5, CHR 0x88, CHR 0xB0, CHR 0xE6, CHR 0x9C, CHR 0x89, CHR 0xE6, CHR 0x95, CHR 0x88, CHR 0xE5, CHR 0xB7, CHR 0xA5, CHR 0xE4, CHR 0xBD, CHR 0x9C, CHR 0xE6, CHR 0xB4, CHR 0xBB, CHR 0xE5, CHR 0x8A, CHR 0xA8, CHR 0xEF, CHR 0xBC, CHR 0x88, CHR 0xE6, CHR 0x89, CHR 0x80, CHR 0xE6, CHR 0x9C, CHR 0x89, CHR 0xE6, CHR 0x88, CHR 0xAA, CHR 0xE5, CHR 0x9B, CHR 0xBE, CHR 0xE5, CHR 0x9D, CHR 0x87, CHR 0xE4, CHR 0xB8, CHR 0xBA, CHR 0xE6, CHR 0xA1, CHR 0x8C, CHR 0xE9, CHR 0x9D, CHR 0xA2, CHR 0xE6, CHR 0x88, CHR 0x96, CHR 0xE9, CHR 0x94, CHR 0x81, CHR 0xE5, CHR 0xB1, CHR 0x8F, CHR 0xE7, CHR 0x8A, CHR 0xB6, CHR 0xE6, CHR 0x80, CHR 0x81, CHR 0xEF, CHR 0xBC, CHR 0x89],
      [CHR 0xE8, CHR 0xAF, CHR 0xA5, CHR 0xE6, CHR 0x97, CHR 0xB6, CHR 0xE9, CHR 0x97, CHR 0xB4, CHR 0xE6, CHR 0xAE, CHR 0xB5, CHR 0xE5, CHR 0x86, CHR 0x85, CHR 0xE6, CHR 0xB2, CHR 0xA1, CHR 0xE6, CHR 0x9C, CHR 0x89, CHR 0xE6, CHR 0xA3, CHR 0x80, CHR 0xE6, CHR 0xB5, CHR 0x8B, CHR 0xE5, CHR 0x88, CHR 0xB0, CHR 0xE6, CHR 0x9C, CHR 0x89, CHR 0xE6, CHR 0x95, CHR 0x88, CHR 0xE5, CHR 0xB7, CHR 0xA5, CHR 0xE4, CHR 0xBD, CHR 0x9C, CHR 0xE6, CHR 0xB4, CHR 0xBB, CHR 0xE5, CHR 0x8A, CHR 0xA8],
      [CHR 0xE6, CHR 0xB2, CHR 0xA1, CHR 0xE6, CHR 0x9C, CHR 0x89, CHR 0xE6, CHR 0xA3, CHR 0x80, CHR 0xE6, CHR 0xB5, CHR 0x8B, CHR 0xE5, CHR 0x88, CHR 0xB0, CHR 0xE6, CHR 0x9C, CHR 0x89, CHR 0xE6, CHR 0x95, CHR 0x88, CHR 0xE5, CHR 0xB7, CHR 0xA5, CHR 0xE4, CHR 0xBD, CHR 0x9C, CHR 0xE6, CHR 0xB4, CHR 0xBB, CHR 0xE5, CHR 0x8A, CHR 0xA8, CHR 0xEF, CHR 0xBC, CHR 0x88, CHR 0xE6, CHR 0x89, CHR 0x80, CHR 0xE6, CHR 0x9C, CHR 0x89, CHR 0xE6, CHR 0x88, CHR 0xAA, CHR 0xE5, CHR 0x9B, CHR 0xBE, CHR 0xE5, CHR 0x9D, CHR 0x87, CHR 0xE4, CHR 0xB8, CHR 0xBA, CHR 0xE6, CHR 0xA1, CHR 0x8C, CHR 0xE9, CHR 0x9D, CHR 0xA2, CHR 0xE6, CHR 0x88, CHR 0x96, CHR 0xE9, CHR 0x94, CHR 0x81, CHR 0xE5, CHR 0xB1, CHR 0x8F, CHR 0xE7, CHR 0x8A, CHR 0xB6, CHR 0xE6, CHR 0x80, CHR 0x81, CHR 0xEF, CHR 0xBC, CHR 0x89],
      [CHR 0xE6, CHR 0xB2, CHR 0xA1, CHR 0xE6, CHR 0x9C, CHR 0x89, CHR 0xE6, CHR 0xA3, CHR 0x80, CHR 0xE6, CHR 0xB5, CHR 0x8B, CHR 0xE5, CHR 0x88, CHR 0xB0, CHR 0xE6, CHR 0x9C, CHR 0x89, CHR 0xE6, CHR 0x95, CHR 0x88, CHR 0xE5, CHR 0xB7, CHR 0xA5, CHR 0xE4, CHR 0xBD, CHR 0x9C, CHR 0xE6, CHR 0xB4, CHR 0xBB, CHR 0xE5, CHR 0x8A, CHR 0xA8],
      [CHR 0xE6, CHR 0xB2, CHR 0xA1, CHR 0xE6, CHR 0x9C, CHR 0x89, CHR 0xE6, CHR 0x9C, CHR 0x89, CHR 0xE6, CHR 0x95, CHR 0x88, CHR 0xE5, CHR 0xB7, CHR 0xA5, CHR 0xE4, CHR 0xBD, CHR 0x9C, CHR 0xE6, CHR 0xB4, CHR 0xBB, CHR 0xE5, CHR 0x8A, CHR 0xA8],
      [CHR 0xE6, CHR 0x9C, CHR 0xAA, CHR 0xE6, CHR 0xA3, CHR 0x80, CHR 0xE6, CHR 0xB5, CHR 0x8B, CHR 0xE5, CHR 0x88, CHR 0xB0, CHR 0xE6, CHR 0x96, CHR 0xB0, CHR 0xE7, CHR 0x9A, CHR 0x84, CHR 0xE6, CHR 0x9C, CHR 0x89, CHR 0xE6, CHR 0x95, CHR 0x88, CHR 0xE5, CHR 0xB7, CHR 0xA5, CHR 0xE4, CHR 0xBD, CHR 0x9C, CHR 0xE6, CHR 0xB4, CHR 0xBB, CHR 0xE5, CHR 0x8A, CHR 0xA8],
      [CHR 0xE6, CHR 0x9C, CHR 0xAA, CHR 0xE6, CHR 0xA3, CHR 0x80, CHR 0xE6, CHR 0xB5, CHR 0x8B, CHR 0xE5, CHR 0x88, CHR 0xB0, CHR 0xE6, CHR 0x9C, CHR 0x89, CHR 0xE6, CHR 0x95, CHR 0x88, CHR 0xE5, CHR 0xB7, CHR 0xA5, CHR 0xE4, CHR 0xBD, CHR 0x9C, CHR 0xE6, CHR 0xB4, CHR 0xBB, CHR 0xE5, CHR 0x8A, CHR 0xA8]]"

text \<open>\<open>noWorkIndicators\<close> of \<open>cleanSummaryIfNoWorkActivity\<close>: U+6CA1 U+6709 U+68C0 U+6D4B U+5230 U+6709 U+6548 U+5DE5 U+4F5C U+6D3B U+52A8; U+6CA1 U+6709 U+6709 U+6548 U+5DE5 U+4F5C U+6D3B U+52A8; U+672A U+68C0 U+6D4B U+5230 U+65B0 U+7684 U+6709 U+6548 U+5DE5 U+4F5C U+6D3B U+52A8; U+672A U+68C0 U+6D4B U+5230 U+6709 U+6548 U+5DE5 U+4F5C U+6D3B U+52A8.\<close>

definition cleanNoWorkIndicators :: "string list" where
  "cleanNoWorkIndicators =
     [[CHR 0xE6, CHR 0xB2, CHR 0xA1, CHR 0xE6, CHR 0x9C, CHR 0x89, CHR 0xE6, CHR 0xA3, CHR 0x80, CHR 0xE6, CHR 0xB5, CHR 0x8B, CHR 0xE5, CHR 0x88, CHR 0xB0, CHR 0xE6, CHR 0x9C, CHR 0x89, CHR 0xE6, CHR 0x95, CHR 0x88, CHR 0xE5, CHR 0xB7, CHR 0xA5, CHR 0xE4, CHR 0xBD, CHR 0x9C, CHR 0xE6, CHR 0xB4, CHR 0xBB, CHR 0xE5, CHR 0x8A, CHR 0xA8],
      [CHR 0xE6, CHR 0xB2, CHR 0xA1, CHR 0xE6, CHR 0x9C, CHR 0x89, CHR 0xE6, CHR 0x9C, CHR 0x89, CHR 0xE6, CHR 0x95, CHR 0x88, CHR 0xE5, CHR 0xB7, CHR 0xA5, CHR 0xE4, CHR 0xBD, CHR 0x9C, CHR 0xE6, CHR 0xB4, CHR 0xBB, CHR 0xE5, CHR 0x8A, CHR 0xA8],
      [CHR 0xE6, CHR 0x9C, CHR 0xAA, CHR 0xE6, CHR 0xA3, CHR 0x80, CHR 0xE6, CHR 0xB5, CHR 0x8B, CHR 0xE5, CHR 0x88, CHR 0xB0, CHR 0xE6, CHR 0x96, CHR 0xB0, CHR 0xE7, CHR 0x9A, CHR 0x84, CHR 0xE6, CHR 0x9C, CHR 0x89, CHR 0xE6, CHR 0x95, CHR 0x88, CHR 0xE5, CHR 0xB7, CHR 0xA5, CHR 0xE4, CHR 0xBD, CHR 0x9C, CHR 0xE6, CHR 0xB4, CHR 0xBB, CHR 0xE5, CHR 0x8A, CHR 0xA8],
      [CHR 0xE6, CHR 0x9C, CHR 0xAA, CHR 0xE6, CHR 0xA3, CHR 0x80, CHR 0xE6, CHR 0xB5, CHR 0x8B, CHR 0xE5, CHR 0x88, CHR 0xB0, CHR 0xE6, CHR 0x9C, CHR 0x89, CHR 0xE6, CHR 0x95, CHR 0x88, CHR 0xE5, CHR 0xB7, CHR 0xA5, CHR 0xE4, CHR 0xBD, CHR 0x9C, CHR 0xE6, CHR 0xB4, CHR 0xBB, CHR 0xE5, CHR 0x8A, CHR 0xA8]]"

text \<open>\<open>noWorkIndicators\<close> of \<open>hasValidWorkActivity\<close>: U+6CA1 U+6709 U+68C0 U+6D4B U+5230 U+6709 U+6548 U+5DE5 U+4F5C U+6D3B U+52A8; U+6CA1 U+6709 U+6709 U+6548 U+5DE5 U+4F5C U+6D3B U+52A8; U+672A U+68C0 U+6D4B U+5230 U+65B0 U+7684 U+6709 U+6548 U+5DE5 U+4F5C U+6D3B U+52A8; U+672A U+68C0 U+6D4B U+5230 U+6709 U+6548 U+5DE5 U+4F5C U+6D3B U+52A8; "no work activity"; U+6CA1 U+6709 U+68C0 U+6D4B U+5230 U+65B0 U+7684 U+6709 U+6548 U+5DE5 U+4F5C U+6D3B U+52A8.\<close>

definition noWorkIndicators :: "string list" where
  "noWorkIndicators =
     [[CHR 0xE6, CHR 0xB2, CHR 0xA1, CHR 0xE6, CHR 0x9C, CHR 0x89, CHR 0xE6, CHR 0xA3, CHR 0x80, CHR 0xE6, CHR 0xB5, CHR 0x8B, CHR 0xE5, CHR 0x88, CHR 0xB0, CHR 0xE6, CHR 0x9C, CHR 0x89, CHR 0xE6, CHR 0x95, CHR 0x88, CHR 0xE5, CHR 0xB7, CHR 0xA5, CHR 0xE4, CHR 0xBD, CHR 0x9C, CHR 0xE6, CHR 0xB4, CHR 0xBB, CHR 0xE5, CHR 0x8A, CHR 0xA8],
      [CHR 0xE6, CHR 0xB2, CHR 0xA1, CHR 0xE6, CHR 0x9C, CHR 0x89, CHR 0xE6, CHR 0x9C, CHR 0x89, CHR 0xE6, CHR 0x95, CHR 0x88, CHR 0xE5, CHR 0xB7, CHR 0xA5, CHR 0xE4, CHR 0xBD, CHR 0x9C, CHR 0xE6, CHR 0xB4, CHR 0xBB, CHR 0xE5, CHR 0x8A, CHR 0xA8],
      [CHR 0xE6, CHR 0x9C, CHR 0xAA, CHR 0xE6, CHR 0xA3, CHR 0x80, CHR 0xE6, CHR 0xB5, CHR 0x8B, CHR 0xE5, CHR 0x88, CHR 0xB0, CHR 0xE6, CHR 0x96, CHR 0xB0, CHR 0xE7, CHR 0x9A, CHR 0x84, CHR 0xE6, CHR 0x9C, CHR 0x89, CHR 0xE6, CHR 0x95, CHR 0x88, CHR 0xE5, CHR 0xB7, CHR 0xA5, CHR 0xE4, CHR 0xBD, CHR 0x9C, CHR 0xE6, CHR 0xB4, CHR 0xBB, CHR 0xE5, CHR 0x8A, CHR 0xA8],
      [CHR 0xE6, CHR 0x9C, CHR 0xAA, CHR 0xE6, CHR 0xA3, CHR 0x80, CHR 0xE6, CHR 0xB5, CHR 0x8B, CHR 0xE5, CHR 0x88, CHR 0xB0, CHR 0xE6, CHR 0x9C, CHR 0x89, CHR 0xE6, CHR 0x95, CHR 0x88, CHR 0xE5, CHR 0xB7, CHR 0xA5, CHR 0xE4, CHR 0xBD, CHR 0x9C, CHR 0xE6, CHR 0xB4, CHR 0xBB, CHR 0xE5, CHR 0x8A, CHR 0xA8],
      ''no work activity'',
      [CHR 0xE6, CHR 0xB2, CHR 0xA1, CHR 0xE6, CHR 0x9C, CHR 0x89, CHR 0xE6, CHR 0xA3, CHR 0x80, CHR 0xE6, CHR 0xB5, CHR 0x8B, CHR 0xE5, CHR 0x88, CHR 0xB0, CHR 0xE6, CHR 0x96, CHR 0xB0, CHR 0xE7, CHR 0x9A, CHR 0x84, CHR 0xE6, CHR 0x9C, CHR 0x89, CHR 0xE6, CHR 0x95, CHR 0x88, CHR 0xE5, CHR 0xB7, CHR 0xA5, CHR 0xE4, CHR 0xBD, CHR 0x9C, CHR 0xE6, CHR 0xB4, CHR 0xBB, CHR 0xE5, CHR 0x8A, CHR 0xA8]]"

text \<open>\<open>desktopLockScreenIndicators\<close>: U+684C U+9762 U+6216 U+9501 U+5C4F U+72B6 U+6001; U+684C U+9762 U+6216 U+9501 U+5C4F; U+5747 U+4E3A U+684C U+9762 U+6216 U+9501 U+5C4F; U+6240 U+6709 U+622A U+56FE U+5185 U+5BB9 U+5747 U+4E3A U+684C U+9762 U+6216 U+9501 U+5C4F U+72B6 U+6001; "desktop or lock screen"; "lock screen"; "desktop".\<close>

definition desktopLockScreenIndicators :: "string list" where
  "desktopLockScreenIndicators =
     [[CHR 0xE6, CHR 0xA1, CHR 0x8C, CHR 0xE9, CHR 0x9D, CHR 0xA2, CHR 0xE6, CHR 0x88, CHR 0x96, CHR 0xE9, CHR 0x94, CHR 0x81, CHR 0xE5, CHR 0xB1, CHR 0x8F, CHR 0xE7, CHR 0x8A, CHR 0xB6, CHR 0xE6, CHR 0x80, CHR 0x81],
      [CHR 0xE6, CHR 0xA1, CHR 0x8C, CHR 0xE9, CHR 0x9D, CHR 0xA2, CHR 0xE6, CHR 0x88, CHR 0x96, CHR 0xE9, CHR 0x94, CHR 0x81, CHR 0xE5, CHR 0xB1, CHR 0x8F],
      [CHR 0xE5, CHR 0x9D, CHR 0x87, CHR 0xE4, CHR 0xB8, CHR 0xBA, CHR 0xE6, CHR 0xA1, CHR 0x8C, CHR 0xE9, CHR 0x9D, CHR 0xA2, CHR 0xE6, CHR 0x88, CHR 0x96, CHR 0xE9, CHR 0x94, CHR 0x81, CHR 0xE5, CHR 0xB1, CHR 0x8F],
      [CHR 0xE6, CHR 0x89, CHR 0x80, CHR 0xE6, CHR 0x9C, CHR 0x89, CHR 0xE6, CHR 0x88, CHR 0xAA, CHR 0xE5, CHR 0x9B, CHR 0xBE, CHR 0xE5, CHR 0x86, CHR 0x85, CHR 0xE5, CHR 0xAE, CHR 0xB9, CHR 0xE5, CHR 0x9D, CHR 0x87, CHR 0xE4, CHR 0xB8, CHR 0xBA, CHR 0xE6, CHR 0xA1, CHR 0x8C, CHR 0xE9, CHR 0x9D, CHR 0xA2, CHR 0xE6, CHR 0x88, CHR 0x96, CHR 0xE9, CHR 0x94, CHR 0x81, CHR 0xE5, CHR 0xB1, CHR 0x8F, CHR 0xE7, CHR 0x8A, CHR 0xB6, CHR 0xE6, CHR 0x80, CHR 0x81],
      ''desktop or lock screen'',
      ''lock screen'',
      ''desktop'']"

text \<open>\<open>workIndicators\<close>: U+4EE3 U+7801; U+5F00 U+53D1; U+7F16 U+5199; U+8C03 U+8BD5; U+6D4B U+8BD5; U+90E8 U+7F72; U+63D0 U+4EA4; U+4FEE U+590D; U+9879 U+76EE; U+4EFB U+52A1; U+5DE5 U+4F5C; U+5B8C U+6210; U+5B9E U+73B0; U+4F18 U+5316; U+8BBE U+8BA1; "code"; "develop"; "write"; "debug"; "test"; "deploy"; "commit"; "fix"; "project"; "task"; "work"; "complete"; "implement"; "optimize"; "design".\<close>

definition workIndicators :: "string list" where
  "workIndicators =
     [[CHR 0xE4, CHR 0xBB, CHR 0xA3, CHR 0xE7, CHR 0xA0, CHR 0x81],
      [CHR 0xE5, CHR 0xBC, CHR 0x80, CHR 0xE5, CHR 0x8F, CHR 0x91],
      [CHR 0xE7, CHR 0xBC, CHR 0x96, CHR 0xE5, CHR 0x86, CHR 0x99],
      [CHR 0xE8, CHR 0xB0, CHR 0x83, CHR 0xE8, CHR 0xAF, CHR 0x95],
      [CHR 0xE6, CHR 0xB5, CHR 0x8B, CHR 0xE8, CHR 0xAF, CHR 0x95],
      [CHR 0xE9, CHR 0x83, CHR 0xA8, CHR 0xE7, CHR 0xBD, CHR 0xB2],
      [CHR 0xE6, CHR 0x8F, CHR 0x90, CHR 0xE4, CHR 0xBA, CHR 0xA4],
      [CHR 0xE4, CHR 0xBF, CHR 0xAE, CHR 0xE5, CHR 0xA4, CHR 0x8D],
      [CHR 0xE9, CHR 0xA1, CHR 0xB9, CHR 0xE7, CHR 0x9B, CHR 0xAE],
      [CHR 0xE4, CHR 0xBB, CHR 0xBB, CHR 0xE5, CHR 0x8A, CHR 0xA1],
      [CHR 0xE5, CHR 0xB7, CHR 0xA5, CHR 0xE4, CHR 0xBD, CHR 0x9C],
      [CHR 0xE5, CHR 0xAE, CHR 0x8C, CHR 0xE6, CHR 0x88, CHR 0x90],
      [CHR 0xE5, CHR 0xAE, CHR 0x9E, CHR 0xE7, CHR 0x8E, CHR 0xB0],
      [CHR 0xE4, CHR 0xBC, CHR 0x98, CHR 0xE5, CHR 0x8C, CHR 0x96],
      [CHR 0xE8, CHR 0xAE, CHR 0xBE, CHR 0xE8, CHR 0xAE, CHR 0xA1],
      ''code'',
      ''develop'',
      ''write'',
      ''debug'',
      ''test'',
      ''deploy'',
      ''commit'',
      ''fix'',
      ''project'',
      ''task'',
      ''work'',
      ''complete'',
      ''implement'',
      ''optimize'',
      ''design'']"

text \<open>\<open>noActivityPatterns\<close> of \<open>hasValidContent\<close>: U+6CA1 U+6709 U+68C0 U+6D4B U+5230 U+6709 U+6548 U+5DE5 U+4F5C U+6D3B U+52A8; U+6CA1 U+6709 U+6709 U+6548 U+5DE5 U+4F5C U+6D3B U+52A8; "no work activity"; "no work activity in segment".\<close>

definition noActivityPatterns :: "string list" where
  "noActivityPatterns =
     [[CHR 0xE6, CHR 0xB2, CHR 0xA1, CHR 0xE6, CHR 0x9C, CHR 0x89, CHR 0xE6, CHR 0xA3, CHR 0x80, CHR 0xE6, CHR 0xB5, CHR 0x8B, CHR 0xE5, CHR 0x88, CHR 0xB0, CHR 0xE6, CHR 0x9C, CHR 0x89, CHR 0xE6, CHR 0x95, CHR 0x88, CHR 0xE5, CHR 0xB7, CHR 0xA5, CHR 0xE4, CHR 0xBD, CHR 0x9C, CHR 0xE6, CHR 0xB4, CHR 0xBB, CHR 0xE5, CHR 0x8A, CHR 0xA8],
      [CHR 0xE6, CHR 0xB2, CHR 0xA1, CHR 0xE6, CHR 0x9C, CHR 0x89, CHR 0xE6, CHR 0x9C, CHR 0x89, CHR 0xE6, CHR 0x95, CHR 0x88, CHR 0xE5, CHR 0xB7, CHR 0xA5, CHR 0xE4, CHR 0xBD, CHR 0x9C, CHR 0xE6, CHR 0xB4, CHR 0xBB, CHR 0xE5, CHR 0x8A, CHR 0xA8],
      ''no work activity'',
      ''no work activity in segment'']"

text \<open>Heading of the efficiency section: U+3010 U+6548 U+7387 U+5206 U+6790 U+3011.\<close>

definition efficiencyHeading :: string where
  "efficiencyHeading = [CHR 0xE3, CHR 0x80, CHR 0x90, CHR 0xE6, CHR 0x95, CHR 0x88, CHR 0xE7, CHR 0x8E, CHR 0x87, CHR 0xE5, CHR 0x88, CHR 0x86, CHR 0xE6, CHR 0x9E, CHR 0x90, CHR 0xE3, CHR 0x80, CHR 0x91]"

text \<open>The same without brackets: U+6548 U+7387 U+5206 U+6790.\<close>

definition efficiencyWords :: string where
  "efficiencyWords = [CHR 0xE6, CHR 0x95, CHR 0x88, CHR 0xE7, CHR 0x8E, CHR 0x87, CHR 0xE5, CHR 0x88, CHR 0x86, CHR 0xE6, CHR 0x9E, CHR 0x90]"

text \<open>Heading of the improvement section: U+3010 U+6539 U+8FDB U+5EFA U+8BAE U+3011.\<close>

definition improvementHeading :: string where
  "improvementHeading = [CHR 0xE3, CHR 0x80, CHR 0x90, CHR 0xE6, CHR 0x94, CHR 0xB9, CHR 0xE8, CHR 0xBF, CHR 0x9B, CHR 0xE5, CHR 0xBB, CHR 0xBA, CHR 0xE8, CHR 0xAE, CHR 0xAE, CHR 0xE3, CHR 0x80, CHR 0x91]"

text \<open>The same without brackets: U+6539 U+8FDB U+5EFA U+8BAE.\<close>

definition improvementWords :: string where
  "improvementWords = [CHR 0xE6, CHR 0x94, CHR 0xB9, CHR 0xE8, CHR 0xBF, CHR 0x9B, CHR 0xE5, CHR 0xBB, CHR 0xBA, CHR 0xE8, CHR 0xAE, CHR 0xAE]"

text \<open>Prefix of a failed behaviour analysis: U+5206 U+6790 U+5931 U+8D25.\<close>

definition analysisFailedZh :: string where
  "analysisFailedZh = [CHR 0xE5, CHR 0x88, CHR 0x86, CHR 0xE6, CHR 0x9E, CHR 0x90, CHR 0xE5, CHR 0xA4, CHR 0xB1, CHR 0xE8, CHR 0xB4, CHR 0xA5]"

text \<open>The same followed by a colon: U+5206 U+6790 U+5931 U+8D25 U+003A.\<close>

definition analysisFailedZhColon :: string where
  "analysisFailedZhColon = [CHR 0xE5, CHR 0x88, CHR 0x86, CHR 0xE6, CHR 0x9E, CHR 0x90, CHR 0xE5, CHR 0xA4, CHR 0xB1, CHR 0xE8, CHR 0xB4, CHR 0xA5, CHR 0x3A]"













text \<open>
  The normalisation shared by \<open>isInvalidSummary\<close> and \<open>hasValidWorkActivity\<close>:
  lower case, line breaks to spaces, double spaces to single ones (one pass), brackets
  and markdown marks removed, surrounding space trimmed.
\<close>

definition normalizeMarkdown :: "string \<Rightarrow> string" where
  "normalizeMarkdown s =
     TrimSpace (removeEach [lbracket, rbracket, ''*'', ''#'']
       (ReplaceAll (ReplaceAll (ReplaceAll (ToLower s) [LF] '' '') [CHR 0x0D] '' '') ''  '' '' ''))"

text \<open>\<open>isInvalidSummary\<close>: the loop over \<open>invalidPatterns\<close>.\<close>

fun invalidPatternLoop :: "string \<Rightarrow> string list \<Rightarrow> bool" where
  "invalidPatternLoop summary [] = False"
| "invalidPatternLoop summary (pattern # rest) =
     (if Contains (ToLower summary) (ToLower pattern) then
        (let normalized = normalizeMarkdown summary;
             remaining = TrimSpace (removeEach punctuation (ReplaceAll normalized (ToLower pattern) []))
         in if length remaining < 50 then True else invalidPatternLoop summary rest)
      else invalidPatternLoop summary rest)"

definition isInvalidSummary :: "string \<Rightarrow> bool" where
  "isInvalidSummary summary =
     (if summary = [] then True
      else if summary = placeholderMarker then True
      else invalidPatternLoop summary invalidPatterns)"

text \<open>\<open>hasValidWorkActivity\<close>: the first check, a loop over \<open>noWorkIndicators\<close>
  that returns \<open>False\<close> as soon as one indicator condemns the summary.\<close>

definition containsAny :: "string \<Rightarrow> string list \<Rightarrow> bool" where
  "containsAny s pats = list_ex (\<lambda>p. Contains s (ToLower p)) pats"

fun noWorkLoop :: "string \<Rightarrow> string list \<Rightarrow> bool" where
  "noWorkLoop summary [] = True"
| "noWorkLoop summary (indicator # rest) =
     (if Contains (ToLower summary) (ToLower indicator) then
        (let normalized = normalizeMarkdown (TrimSpace summary)
         in if length normalized < 200 then False
            else if containsAny (ToLower summary) desktopLockScreenIndicators then False
            else
              (let remaining =
                     TrimSpace (removeEach punctuationW
                       (removeEach (map ToLower desktopLockScreenIndicators)
                         (removeEach (map ToLower noWorkIndicators) normalized)))
               in if length remaining < 50 then False else noWorkLoop summary rest))
      else noWorkLoop summary rest)"

definition hasValidWorkActivity :: "string \<Rightarrow> bool" where
  "hasValidWorkActivity summary =
     (if summary = [] then False
      else if \<not> noWorkLoop summary noWorkIndicators then False
      else
        (let hasDesktopLockScreen = containsAny (ToLower summary) desktopLockScreenIndicators
         in if hasDesktopLockScreen then
              (let hasWorkContent = containsAny (ToLower summary) workIndicators
               in if \<not> hasWorkContent \<and> length (TrimSpace summary) < 300 then False else True)
            else True))"

text \<open>\<open>cleanSummaryIfNoWorkActivity\<close>: the loop over the lines keeps the two section
  flags; a line that enters a section is dropped, and so is every line while a flag is
  set (the flags are only reset when neither is set, so they stay set to the end).\<close>

fun cleanLines :: "bool \<Rightarrow> bool \<Rightarrow> string list \<Rightarrow> string list" where
  "cleanLines inEfficiencySection inImprovementSection [] = []"
| "cleanLines inEfficiencySection inImprovementSection (line # rest) =
     (let lineTrimmed = TrimSpace line; lineLower = ToLower lineTrimmed
      in if Contains lineLower efficiencyHeading \<or> Contains lineLower efficiencyWords
         then cleanLines True inImprovementSection rest
         else if Contains lineLower improvementHeading \<or> Contains lineLower improvementWords
         then cleanLines inEfficiencySection True rest
         else
           (let reset = HasPrefix lineTrimmed lbracket \<and> \<not> inEfficiencySection \<and> \<not> inImprovementSection;
                e = (if reset then False else inEfficiencySection);
                i = (if reset then False else inImprovementSection)
            in if e \<or> i then cleanLines e i rest else line # cleanLines e i rest))"

definition cleanSummaryIfNoWorkActivity :: "string \<Rightarrow> string" where
  "cleanSummaryIfNoWorkActivity summary =
     (if summary = [] then summary
      else if \<not> hasValidWorkActivity summary then []
      else if containsAny (ToLower summary) cleanNoWorkIndicators then
        (let cleanedSummary = TrimSpace (Join (cleanLines False False (Split summary [LF])) [LF])
         in if length cleanedSummary < 100 then [] else cleanedSummary)
      else summary)"



subsection \<open>Texts with enough letters and digits are not invalid\<close>

text \<open>The phrase "no valid work activity was detected" (U+6CA1 U+6709 U+68C0 U+6D4B U+5230 U+6709 U+6548 U+5DE5 U+4F5C U+6D3B U+52A8).\<close>

definition noWorkPhrase :: string where
  "noWorkPhrase = [CHR 0xE6, CHR 0xB2, CHR 0xA1, CHR 0xE6, CHR 0x9C, CHR 0x89, CHR 0xE6, CHR 0xA3, CHR 0x80, CHR 0xE6, CHR 0xB5, CHR 0x8B, CHR 0xE5, CHR 0x88, CHR 0xB0, CHR 0xE6, CHR 0x9C, CHR 0x89, CHR 0xE6, CHR 0x95, CHR 0x88, CHR 0xE5, CHR 0xB7, CHR 0xA5, CHR 0xE4, CHR 0xBD, CHR 0x9C, CHR 0xE6, CHR 0xB4, CHR 0xBB, CHR 0xE5, CHR 0x8A, CHR 0xA8]"

text \<open>The ASCII letters and digits of a text: what is left of them after the
  normalisation bounds the length of the remaining text from below.\<close>

definition isAlnum :: "char \<Rightarrow> bool" where
  "isAlnum c \<longleftrightarrow>
     (let n = (of_char c :: nat)
      in (48 \<le> n \<and> n \<le> 57) \<or> (65 \<le> n \<and> n \<le> 90) \<or> (97 \<le> n \<and> n \<le> 122))"

definition wordChars :: "string \<Rightarrow> nat" where
  "wordChars s = length (filter isAlnum s)"

lemma isAlnum_lowerChar: "isAlnum (lowerChar c) = isAlnum c"
  by (auto simp: lowerChar_def isAlnum_def Let_def)

lemma wordChars_ToLower: "wordChars (ToLower s) = wordChars s"
  by (induction s) (simp_all add: wordChars_def ToLower_def isAlnum_lowerChar)

lemma filter_ReplaceAll:
  "\<forall>c\<in>set old. \<not> P c \<Longrightarrow> \<forall>c\<in>set new. \<not> P c \<Longrightarrow>
   filter P (ReplaceAll s old new) = filter P s"
proof (induction s old new rule: ReplaceAll.induct)
  case (1 s old new)
  show ?case
  proof (cases "old = [] \<or> s = []")
    case True
    then show ?thesis by (subst ReplaceAll.simps) simp
  next
    case False
    show ?thesis
    proof (cases "HasPrefix s old")
      case True
      then have s: "s = old @ drop (length old) s"
        by (metis HasPrefix_def append_take_drop_id)
      have "filter P (ReplaceAll s old new) = filter P (drop (length old) s)"
        using False True 1 by (subst ReplaceAll.simps) simp
      also have "\<dots> = filter P s"
        using "1.prems"(1) by (subst (2) s) simp
      finally show ?thesis .
    next
      case h: False
      from False obtain c cs where s: "s = c # cs" by (cases s) auto
      show ?thesis
        using False h 1 s by (subst ReplaceAll.simps) simp
    qed
  qed
qed

lemma wordChars_ReplaceAll:
  "\<forall>c\<in>set old. \<not> isAlnum c \<Longrightarrow> \<forall>c\<in>set new. \<not> isAlnum c \<Longrightarrow>
   wordChars (ReplaceAll s old new) = wordChars s"
  by (simp add: wordChars_def filter_ReplaceAll)

lemma wordChars_removeEach:
  "\<forall>tok\<in>set toks. \<forall>c\<in>set tok. \<not> isAlnum c \<Longrightarrow> wordChars (removeEach toks s) = wordChars s"
  unfolding removeEach_def
  by (induction toks arbitrary: s) (simp_all add: wordChars_ReplaceAll)

lemma filter_dropWhile: "(\<And>c. Q c \<Longrightarrow> \<not> P c) \<Longrightarrow> filter P (dropWhile Q s) = filter P s"
  by (induction s) auto

lemma isSpace_not_alnum: "isSpace c \<Longrightarrow> \<not> isAlnum c"
  by (auto simp: isSpace_def isAlnum_def)

lemma wordChars_TrimSpace: "wordChars (TrimSpace s) = wordChars s"
proof -
  have "filter isAlnum (TrimSpace s) = rev (filter isAlnum (dropWhile isSpace (rev (dropWhile isSpace s))))"
    by (simp add: TrimSpace_def rev_filter)
  also have "\<dots> = rev (filter isAlnum (rev (dropWhile isSpace s)))"
    by (simp add: filter_dropWhile isSpace_not_alnum)
  also have "\<dots> = filter isAlnum (dropWhile isSpace s)"
    by (simp add: rev_filter)
  also have "\<dots> = filter isAlnum s"
    by (simp add: filter_dropWhile isSpace_not_alnum)
  finally show ?thesis by (simp add: wordChars_def)
qed

lemma wordChars_le_length: "wordChars s \<le> length s"
  by (simp add: wordChars_def)

lemma wordChars_normalizeMarkdown: "wordChars (normalizeMarkdown s) = wordChars s"
proof -
  have a: "\<forall>tok\<in>set [lbracket, rbracket, ''*'', ''#'']. \<forall>c\<in>set tok. \<not> isAlnum c"
    by code_simp
  have b: "\<forall>c\<in>set [LF]. \<not> isAlnum c" "\<forall>c\<in>set [CHR 0x0D]. \<not> isAlnum c"
    "\<forall>c\<in>set ''  ''. \<not> isAlnum c" "\<forall>c\<in>set '' ''. \<not> isAlnum c"
    by code_simp+
  show ?thesis
    unfolding normalizeMarkdown_def
    by (simp only: wordChars_TrimSpace wordChars_removeEach[OF a] wordChars_ReplaceAll[OF b(1) b(4)]
        wordChars_ReplaceAll[OF b(2) b(4)] wordChars_ReplaceAll[OF b(3) b(4)] wordChars_ToLower)
qed

lemma punctuation_not_alnum: "\<forall>tok\<in>set punctuation. \<forall>c\<in>set tok. \<not> isAlnum c"
  by code_simp

lemma invalidPatterns_not_alnum: "\<forall>p\<in>set invalidPatterns. \<forall>c\<in>set (ToLower p). \<not> isAlnum c"
  by code_simp

lemma invalidPatternLoop_wordy:
  "50 \<le> wordChars summary \<Longrightarrow> \<forall>p\<in>set pats. \<forall>c\<in>set (ToLower p). \<not> isAlnum c \<Longrightarrow>
   \<not> invalidPatternLoop summary pats"
proof (induction pats)
  case Nil
  then show ?case by simp
next
  case (Cons pattern rest)
  let ?remaining = "TrimSpace (removeEach punctuation (ReplaceAll (normalizeMarkdown summary) (ToLower pattern) []))"
  have "wordChars ?remaining = wordChars summary"
    using Cons.prems(2)
    by (simp add: wordChars_TrimSpace wordChars_removeEach[OF punctuation_not_alnum]
        wordChars_ReplaceAll wordChars_normalizeMarkdown)
  then have "50 \<le> length ?remaining"
    using Cons.prems(1) wordChars_le_length[of ?remaining] by simp
  then show ?case using Cons by (simp add: Let_def)
qed

lemma wordy_not_invalid: "50 \<le> wordChars summary \<Longrightarrow> \<not> isInvalidSummary summary"
proof -
  assume w: "50 \<le> wordChars summary"
  have "wordChars placeholderMarker = 25"
    by code_simp
  with w have "summary \<noteq> placeholderMarker" by auto
  moreover from w have "summary \<noteq> []" by (auto simp: wordChars_def)
  ultimately show ?thesis
    using invalidPatternLoop_wordy[OF w invalidPatterns_not_alnum]
    by (simp add: isInvalidSummary_def)
qed

section \<open>The external summarizer\<close>

text \<open>
  The analyzer (an HTTP client of the summarization service) is not part of the engine.
  It is modelled as a record of functions of their arguments: every operation may fail
  (\<open>Inl\<close> carries the error message). That an operation is a function of its arguments
  is the determinism of the summarizer that the properties below assume; it also makes
  the goroutines of one tree level independent of the order in which they run.
\<close>

type_synonym error = string

record analyzer =
  GenerateSummary :: "string \<Rightarrow> string \<Rightarrow> error + string"
  GenerateRollingSummaryWithContext :: "string \<Rightarrow> string \<Rightarrow> string \<Rightarrow> error + string"
  AnalyzeBehavior :: "string \<Rightarrow> error + string"
  IsDesktopOrLockScreen :: "string \<Rightarrow> error + bool"
  AnalyzeScreenshot :: "string \<Rightarrow> error + string"

text \<open>The calls made to the analyzer are recorded, in the order of the source.\<close>

datatype call =
    CallGenerateSummary string string
  | CallRolling string string string
  | CallAnalyzeBehavior string

section \<open>Text merger: \<open>processRollingSummaryWithTimeContext\<close>\<close>

subsection \<open>Tree aggregation\<close>

text \<open>
  One level of \<open>processTreeAggregationWithTimeContext\<close>. The loop
  \<open>for i := 0; i < len(currentLevel); i += 2\<close> starts one goroutine per pair
  \<open>[i, i+1]\<close> and sends the odd item out itself; every one sends a
  \<open>pairResult{index: i/2, combined: ...}\<close> on \<open>resultChan\<close>. A failed merge
  falls back to the concatenation of the two items with an empty line between them.
\<close>

record pairResult =
  index :: nat
  combined :: string

definition pairJob :: "analyzer \<Rightarrow> string \<Rightarrow> string list \<Rightarrow> nat \<Rightarrow> pairResult" where
  "pairJob an timeContext currentLevel i =
     (if i + 1 < length currentLevel then
        \<lparr>index = i div 2,
         combined =
           (case GenerateRollingSummaryWithContext an (currentLevel ! i) (currentLevel ! (i + 1)) timeContext of
              Inr c \<Rightarrow> c
            | Inl err \<Rightarrow> (currentLevel ! i) @ [LF, LF] @ (currentLevel ! (i + 1)))\<rparr>
      else \<lparr>index = i div 2, combined = currentLevel ! i\<rparr>)"

definition pairCalls :: "string \<Rightarrow> string list \<Rightarrow> nat \<Rightarrow> call list" where
  "pairCalls timeContext currentLevel i =
     (if i + 1 < length currentLevel
      then [CallRolling (currentLevel ! i) (currentLevel ! (i + 1)) timeContext] else [])"

text \<open>The values of the loop variable: \<open>0, 2, 4, ...\<close> below \<open>len(currentLevel)\<close>.\<close>

definition pairStarts :: "nat \<Rightarrow> nat list" where
  "pairStarts n = map (\<lambda>j. 2 * j) [0..<(n + 1) div 2]"

text \<open>
  The results arrive on the channel in an order that depends on the scheduling of the
  goroutines: \<open>arrival\<close> is that order, any rearrangement of the results.
  \<open>nextLevel := make([]string, pairsInLevel)\<close> is then filled by
  \<open>nextLevel[result.index] = result.combined\<close>.
\<close>

definition fair :: "(pairResult list \<Rightarrow> pairResult list) \<Rightarrow> bool" where
  "fair arrival \<longleftrightarrow> (\<forall>rs. mset (arrival rs) = mset rs)"

definition collectResults :: "nat \<Rightarrow> pairResult list \<Rightarrow> string list" where
  "collectResults pairsInLevel rs =
     foldl (\<lambda>nextLevel r. nextLevel[index r := combined r]) (replicate pairsInLevel []) rs"

definition treeLevel ::
  "analyzer \<Rightarrow> (pairResult list \<Rightarrow> pairResult list) \<Rightarrow> string \<Rightarrow> string list \<Rightarrow> string list" where
  "treeLevel an arrival timeContext currentLevel =
     (let pairsInLevel = (length currentLevel + 1) div 2
      in collectResults pairsInLevel
           (arrival (map (pairJob an timeContext currentLevel) (pairStarts (length currentLevel)))))"

definition treeLevelCalls :: "string \<Rightarrow> string list \<Rightarrow> call list" where
  "treeLevelCalls timeContext currentLevel =
     concat (map (pairCalls timeContext currentLevel) (pairStarts (length currentLevel)))"

lemma length_collectResults: "length (collectResults n rs) = n"
proof -
  have "length (foldl (\<lambda>nl r. nl[index r := combined r]) acc rs) = length acc" for acc
    by (induction rs arbitrary: acc) auto
  then show ?thesis by (simp add: collectResults_def)
qed

lemma length_treeLevel:
  "length (treeLevel an arrival timeContext currentLevel) = (length currentLevel + 1) div 2"
  by (simp add: treeLevel_def Let_def length_collectResults)

text \<open>\<open>for len(currentLevel) > 1 { ... currentLevel = nextLevel }\<close>, with the calls made.\<close>

function treeLoop ::
  "analyzer \<Rightarrow> (pairResult list \<Rightarrow> pairResult list) \<Rightarrow> string \<Rightarrow> string list \<Rightarrow> string list \<times> call list" where
  "treeLoop an arrival timeContext currentLevel =
     (if length currentLevel > 1 then
        (let (final, calls) = treeLoop an arrival timeContext (treeLevel an arrival timeContext currentLevel)
         in (final, treeLevelCalls timeContext currentLevel @ calls))
      else (currentLevel, []))"
  by pat_completeness auto
termination
  by (relation "measure (\<lambda>(an, arrival, timeContext, currentLevel). length currentLevel)")
     (auto simp: length_treeLevel)

declare treeLoop.simps [simp del]

definition processTreeAggregationWithTimeContext ::
  "analyzer \<Rightarrow> (pairResult list \<Rightarrow> pairResult list) \<Rightarrow> string list \<Rightarrow> string \<Rightarrow> (error + string) \<times> call list" where
  "processTreeAggregationWithTimeContext an arrival summaries timeContext =
     (let (currentLevel, calls) = treeLoop an arrival timeContext summaries
      in if length currentLevel = 0
         then (Inl ''tree aggregation resulted in empty output'', calls)
         else (Inr (currentLevel ! 0), calls))"

subsection \<open>Linear rolling\<close>

text \<open>
  \<open>for i := 1; i < len(summaries); i++\<close>: the running summary is merged with
  \<open>summaries[i]\<close>; the first failure ends the loop with an error.
\<close>

function rollingLoop ::
  "analyzer \<Rightarrow> string \<Rightarrow> string list \<Rightarrow> nat \<Rightarrow> string \<Rightarrow> (error + string) \<times> call list" where
  "rollingLoop an timeContext summaries i previousSummary =
     (if i < length summaries then
        (let newContent = summaries ! i;
             c = CallRolling previousSummary newContent timeContext
         in case GenerateRollingSummaryWithContext an previousSummary newContent timeContext of
              Inl err \<Rightarrow> (Inl (''failed at step '' @ itoa i @ '': '' @ err), [c])
            | Inr rolledSummary \<Rightarrow>
                (let (res, calls) = rollingLoop an timeContext summaries (i + 1) rolledSummary
                 in (res, c # calls)))
      else (Inr previousSummary, []))"
  by pat_completeness auto
termination
  by (relation "measure (\<lambda>(an, timeContext, summaries, i, previousSummary). length summaries - i)")
     auto

declare rollingLoop.simps [simp del]

definition treeAggregationThreshold :: nat where
  "treeAggregationThreshold = 20"

definition processRollingSummaryWithTimeContext ::
  "analyzer \<Rightarrow> (pairResult list \<Rightarrow> pairResult list) \<Rightarrow> string list \<Rightarrow> string \<Rightarrow> (error + string) \<times> call list" where
  "processRollingSummaryWithTimeContext an arrival summaries timeContext =
     (if length summaries = 0 then (Inl ''no summaries to process'', [])
      else if length summaries = 1 then (Inr (summaries ! 0), [])
      else if length summaries > treeAggregationThreshold
      then processTreeAggregationWithTimeContext an arrival summaries timeContext
      else rollingLoop an timeContext summaries 1 (summaries ! 0))"

subsection \<open>The reduction in the words of the specification\<close>

text \<open>
  The specification describes the merger on the list itself: a pair is merged by the
  pairwise-merge operation, or concatenated when that fails; a level pairs adjacent
  fragments and carries an odd trailing fragment forward; levels repeat until one
  fragment remains; the rolling reduction keeps a running result, seeded with the
  first fragment.
\<close>

definition mergeOrConcat :: "analyzer \<Rightarrow> string \<Rightarrow> string \<Rightarrow> string \<Rightarrow> string" where
  "mergeOrConcat an timeContext a b =
     (case GenerateRollingSummaryWithContext an a b timeContext of
        Inr c \<Rightarrow> c | Inl err \<Rightarrow> a @ [LF, LF] @ b)"

fun pairUp :: "(string \<Rightarrow> string \<Rightarrow> string) \<Rightarrow> string list \<Rightarrow> string list" where
  "pairUp m (a # b # rest) = m a b # pairUp m rest"
| "pairUp m [a] = [a]"
| "pairUp m [] = []"

lemma length_pairUp: "length (pairUp m xs) = (length xs + 1) div 2"
  by (induction m xs rule: pairUp.induct) auto

function treeReduce :: "(string \<Rightarrow> string \<Rightarrow> string) \<Rightarrow> string list \<Rightarrow> string list" where
  "treeReduce m xs = (if length xs \<le> 1 then xs else treeReduce m (pairUp m xs))"
  by pat_completeness auto
termination
  by (relation "measure (\<lambda>(m, xs). length xs)") (auto simp: length_pairUp)

declare treeReduce.simps [simp del]

fun rollingSpec ::
  "analyzer \<Rightarrow> string \<Rightarrow> nat \<Rightarrow> string \<Rightarrow> string list \<Rightarrow> (error + string) \<times> call list" where
  "rollingSpec an timeContext k running [] = (Inr running, [])"
| "rollingSpec an timeContext k running (x # rest) =
     (case GenerateRollingSummaryWithContext an running x timeContext of
        Inl err \<Rightarrow> (Inl (''failed at step '' @ itoa k @ '': '' @ err), [CallRolling running x timeContext])
      | Inr merged \<Rightarrow>
          (let (res, calls) = rollingSpec an timeContext (k + 1) merged rest
           in (res, CallRolling running x timeContext # calls)))"

subsection \<open>The source refines the specification\<close>

lemma foldl_update_other:
  "j \<notin> index ` set rs \<Longrightarrow>
   foldl (\<lambda>nl r. nl[index r := combined r]) acc rs ! j = acc ! j"
  by (induction rs arbitrary: acc) auto

lemma foldl_update_hit:
  "distinct (map index rs) \<Longrightarrow> r \<in> set rs \<Longrightarrow> index r < length acc \<Longrightarrow>
   foldl (\<lambda>nl r. nl[index r := combined r]) acc rs ! index r = combined r"
proof (induction rs arbitrary: acc)
  case Nil
  then show ?case by simp
next
  case (Cons x rs)
  show ?case
  proof (cases "r = x")
    case True
    with Cons.prems have "index r \<notin> index ` set rs" by auto
    then show ?thesis using Cons.prems True by (simp add: foldl_update_other)
  next
    case False
    with Cons.prems have "r \<in> set rs" "distinct (map index rs)" by auto
    then show ?thesis using Cons.IH[of "acc[index x := combined x]"] Cons.prems by simp
  qed
qed

lemma index_pairJob: "index (pairJob an tc xs i) = i div 2"
  by (simp add: pairJob_def)

lemma map_index_jobs:
  "map index (map (pairJob an tc xs) (pairStarts n)) = [0..<(n + 1) div 2]"
  by (simp add: pairStarts_def index_pairJob comp_def map_idI)

lemma treeLevel_nth:
  assumes "fair arrival" and "j < (length xs + 1) div 2"
  shows "treeLevel an arrival tc xs ! j = combined (pairJob an tc xs (2 * j))"
proof -
  let ?jobs = "map (pairJob an tc xs) (pairStarts (length xs))"
  let ?arrived = "arrival ?jobs"
  have m: "mset ?arrived = mset ?jobs" using assms(1) by (simp add: fair_def)
  have mm: "mset (map index ?arrived) = mset (map index ?jobs)"
    using m by (metis mset_map)
  have d: "distinct (map index ?arrived)"
  proof -
    have "distinct (map index ?jobs)" unfolding map_index_jobs by simp
    with mset_eq_imp_distinct_iff[OF mm] show ?thesis by blast
  qed
  have "pairJob an tc xs (2 * j) \<in> set ?jobs"
    using assms(2) by (auto simp: pairStarts_def)
  then have i: "pairJob an tc xs (2 * j) \<in> set ?arrived"
    using m by (metis mset_eq_setD)
  have "foldl (\<lambda>nl r. nl[index r := combined r]) (replicate ((length xs + 1) div 2) []) ?arrived
          ! index (pairJob an tc xs (2 * j)) = combined (pairJob an tc xs (2 * j))"
    by (rule foldl_update_hit[OF d i]) (use assms(2) in \<open>simp add: index_pairJob\<close>)
  then show ?thesis
    by (simp add: treeLevel_def Let_def collectResults_def index_pairJob)
qed

lemma pairUp_nth:
  "j < (length xs + 1) div 2 \<Longrightarrow>
   pairUp m xs ! j = (if 2 * j + 1 < length xs then m (xs ! (2 * j)) (xs ! (2 * j + 1)) else xs ! (2 * j))"
proof (induction m xs arbitrary: j rule: pairUp.induct)
  case (1 m a b rest)
  then show ?case by (cases j) auto
qed auto

lemma treeLevel_pairUp:
  assumes "fair arrival"
  shows "treeLevel an arrival tc xs = pairUp (mergeOrConcat an tc) xs"
proof (rule nth_equalityI)
  show "length (treeLevel an arrival tc xs) = length (pairUp (mergeOrConcat an tc) xs)"
    by (simp add: length_treeLevel length_pairUp)
next
  fix j assume "j < length (treeLevel an arrival tc xs)"
  then have j: "j < (length xs + 1) div 2" by (simp add: length_treeLevel)
  show "treeLevel an arrival tc xs ! j = pairUp (mergeOrConcat an tc) xs ! j"
    using j by (simp add: treeLevel_nth[OF assms j] pairUp_nth pairJob_def mergeOrConcat_def split: sum.splits)
qed

lemma treeLoop_treeReduce:
  "fair arrival \<Longrightarrow> fst (treeLoop an arrival tc xs) = treeReduce (mergeOrConcat an tc) xs"
proof (induction an arrival tc xs rule: treeLoop.induct)
  case (1 an arrival tc xs)
  show ?case
  proof (cases "length xs > 1")
    case True
    have "fst (treeLoop an arrival tc xs) = fst (treeLoop an arrival tc (treeLevel an arrival tc xs))"
      using True by (subst treeLoop.simps) (simp add: case_prod_beta)
    also have "\<dots> = treeReduce (mergeOrConcat an tc) (treeLevel an arrival tc xs)"
      using 1 True by simp
    also have "\<dots> = treeReduce (mergeOrConcat an tc) (pairUp (mergeOrConcat an tc) xs)"
      by (simp add: treeLevel_pairUp[OF "1.prems"])
    also have "\<dots> = treeReduce (mergeOrConcat an tc) xs"
      using True by (subst (2) treeReduce.simps) simp
    finally show ?thesis .
  next
    case False
    then show ?thesis
      by (subst treeLoop.simps, subst treeReduce.simps) simp
  qed
qed

lemma treeLoop_nonempty: "xs \<noteq> [] \<Longrightarrow> length (fst (treeLoop an arrival tc xs)) = 1"
proof (induction an arrival tc xs rule: treeLoop.induct)
  case (1 an arrival tc xs)
  show ?case
  proof (cases "length xs > 1")
    case True
    then have "treeLevel an arrival tc xs \<noteq> []"
      using length_treeLevel[of an arrival tc xs] by (cases "treeLevel an arrival tc xs") auto
    with True 1 show ?thesis
      by (subst treeLoop.simps) (simp add: case_prod_beta)
  next
    case False
    with 1 show ?thesis
      by (subst treeLoop.simps) (cases xs; simp)
  qed
qed

lemma rollingLoop_spec:
  "rollingLoop an tc xs i prev = rollingSpec an tc i prev (drop i xs)"
proof (induction an tc xs i prev rule: rollingLoop.induct)
  case (1 an tc xs i prev)
  show ?case
  proof (cases "i < length xs")
    case True
    then have d: "drop i xs = xs ! i # drop (Suc i) xs" by (simp add: Cons_nth_drop_Suc)
    show ?thesis
      using True 1 d
      by (subst rollingLoop.simps) (simp add: Let_def split: sum.splits prod.splits)
  next
    case False
    then show ?thesis by (subst rollingLoop.simps) simp
  qed
qed

lemma rollingSpec_calls:
  "fst (rollingSpec an tc k running rest) = Inr r \<Longrightarrow> length (snd (rollingSpec an tc k running rest)) = length rest"
proof (induction rest arbitrary: k running)
  case Nil
  then show ?case by simp
next
  case (Cons a rest)
  then show ?case
    by (cases "GenerateRollingSummaryWithContext an running a tc")
       (auto simp: case_prod_beta)
qed

definition failingAnalyzer :: analyzer where
  "failingAnalyzer =
     \<lparr>GenerateSummary = (\<lambda>t p. Inl ''status 503''),
      GenerateRollingSummaryWithContext = (\<lambda>a b tc. Inl ''status 503''),
      AnalyzeBehavior = (\<lambda>t. Inl ''status 503''),
      IsDesktopOrLockScreen = (\<lambda>p. Inl ''status 503''),
      AnalyzeScreenshot = (\<lambda>p. Inl ''status 503'')\<rparr>"

definition appendingAnalyzer :: analyzer where
  "appendingAnalyzer =
     \<lparr>GenerateSummary = (\<lambda>t p. Inr t),
      GenerateRollingSummaryWithContext = (\<lambda>a b tc. Inr (a @ ''+'' @ b)),
      AnalyzeBehavior = (\<lambda>t. Inr t),
      IsDesktopOrLockScreen = (\<lambda>p. Inr False),
      AnalyzeScreenshot = (\<lambda>p. Inr p)\<rparr>"

lemma fair_rev: "fair rev"
  by (simp add: fair_def)

lemma treeReduce_single:
  assumes "fair arrival" and "xs \<noteq> []"
  shows "\<exists>r. treeReduce (mergeOrConcat an tc) xs = [r]
             \<and> fst (processTreeAggregationWithTimeContext an arrival xs tc) = Inr r"
proof -
  have l: "length (fst (treeLoop an arrival tc xs)) = 1"
    by (rule treeLoop_nonempty[OF assms(2)])
  then obtain r where r: "fst (treeLoop an arrival tc xs) = [r]"
    by (cases "fst (treeLoop an arrival tc xs)") auto
  have "treeReduce (mergeOrConcat an tc) xs = [r]"
    using treeLoop_treeReduce[OF assms(1), of an tc xs] r by simp
  moreover have "fst (processTreeAggregationWithTimeContext an arrival xs tc) = Inr r"
    using r by (simp add: processTreeAggregationWithTimeContext_def case_prod_beta)
  ultimately show ?thesis by blast
qed

section \<open>Package \<open>time\<close>\<close>

text \<open>
  A \<open>time.Time\<close> is modelled as the number of nanoseconds since 1970-01-01T00:00:00
  in the one location all times of a run share (UTC; time zones and daylight saving are
  not modelled). \<open>Before\<close>, \<open>After\<close> and \<open>Equal\<close> are \<open><\<close>, \<open>>\<close> and
  \<open>=\<close>. The calendar fields follow the proleptic Gregorian calendar.
\<close>

type_synonym time = int

definition Second :: int where "Second = 1000000000"
definition Minute :: int where "Minute = 60 * Second"
definition Hour :: int where "Hour = 60 * Minute"

text \<open>Days since 1970-01-01 of a civil date, for a month in \<open>1..12\<close> and any day number.\<close>

definition days_from_civil :: "int \<Rightarrow> int \<Rightarrow> int \<Rightarrow> int" where
  "days_from_civil y m d =
     (let y' = (if m \<le> 2 then y - 1 else y);
          era = y' div 400;
          yoe = y' - era * 400;
          doy = (153 * (if m > 2 then m - 3 else m + 9) + 2) div 5 + d - 1;
          doe = yoe * 365 + yoe div 4 - yoe div 100 + doy
      in era * 146097 + doe - 719468)"

definition civil_from_days :: "int \<Rightarrow> int \<times> int \<times> int" where
  "civil_from_days z =
     (let z' = z + 719468;
          era = z' div 146097;
          doe = z' - era * 146097;
          yoe = (doe - doe div 1460 + doe div 36524 - doe div 146096) div 365;
          doy = doe - (365 * yoe + yoe div 4 - yoe div 100);
          mp = (5 * doy + 2) div 153;
          d = doy - (153 * mp + 2) div 5 + 1;
          m = (if mp < 10 then mp + 3 else mp - 9);
          y = yoe + era * 400
      in (if m \<le> 2 then y + 1 else y, m, d))"

text \<open>\<open>time.Date(year, month, day, hour, min, sec, 0, loc)\<close>: values outside their
  ranges are normalised, as Go does (month 13 is January of the next year, day 0 the
  last day of the month before).\<close>

definition Date :: "int \<Rightarrow> int \<Rightarrow> int \<Rightarrow> int \<Rightarrow> int \<Rightarrow> int \<Rightarrow> time" where
  "Date y m d h mi s =
     (let m0 = m - 1;
          y' = y + m0 div 12;
          m' = m0 mod 12 + 1;
          days = days_from_civil y' m' 1 + (d - 1)
      in (((days * 24 + h) * 60 + mi) * 60 + s) * Second)"

definition daysOf :: "time \<Rightarrow> int" where
  "daysOf t = (t div Second) div 86400"

definition secondOfDay :: "time \<Rightarrow> int" where
  "secondOfDay t = (t div Second) mod 86400"

definition Year :: "time \<Rightarrow> int" where
  "Year t = fst (civil_from_days (daysOf t))"

definition Month :: "time \<Rightarrow> int" where
  "Month t = fst (snd (civil_from_days (daysOf t)))"

definition Day :: "time \<Rightarrow> int" where
  "Day t = snd (snd (civil_from_days (daysOf t)))"

definition HourOf :: "time \<Rightarrow> int" where
  "HourOf t = secondOfDay t div 3600"

definition MinuteOf :: "time \<Rightarrow> int" where
  "MinuteOf t = (secondOfDay t mod 3600) div 60"

definition SecondOf :: "time \<Rightarrow> int" where
  "SecondOf t = secondOfDay t mod 60"

text \<open>\<open>Weekday\<close>: Sunday is 0; 1970-01-01 was a Thursday.\<close>

definition Weekday :: "time \<Rightarrow> int" where
  "Weekday t = (daysOf t + 4) mod 7"

text \<open>\<open>t.AddDate(years, months, days)\<close> keeps the clock of \<open>t\<close>, nanoseconds included.\<close>

definition AddDate :: "time \<Rightarrow> int \<Rightarrow> int \<Rightarrow> int \<Rightarrow> time" where
  "AddDate t years months days =
     Date (Year t + years) (Month t + months) (Day t + days) (HourOf t) (MinuteOf t) (SecondOf t)
       + t mod Second"

text \<open>Formatting, for years \<open>0..9999\<close>: the layouts the engine uses.\<close>

definition pad2 :: "int \<Rightarrow> string" where
  "pad2 n = (if n < 10 then ''0'' @ itoa (nat n) else itoa (nat n))"

definition pad4 :: "int \<Rightarrow> string" where
  "pad4 n = (if n < 10 then ''000'' @ itoa (nat n)
             else if n < 100 then ''00'' @ itoa (nat n)
             else if n < 1000 then ''0'' @ itoa (nat n)
             else itoa (nat n))"

text \<open>\<open>"2006"\<close>, \<open>"2006-01"\<close>, \<open>"2006-01-02"\<close>, \<open>"2006-01-02-15"\<close>,
  \<open>"2006-01-02-15-04"\<close> and \<open>"2006-01-02 15:04:05"\<close>.\<close>

definition FormatYear :: "time \<Rightarrow> string" where
  "FormatYear t = pad4 (Year t)"

definition FormatMonth :: "time \<Rightarrow> string" where
  "FormatMonth t = pad4 (Year t) @ ''-'' @ pad2 (Month t)"

definition FormatDay :: "time \<Rightarrow> string" where
  "FormatDay t = FormatMonth t @ ''-'' @ pad2 (Day t)"

definition FormatHour :: "time \<Rightarrow> string" where
  "FormatHour t = FormatDay t @ ''-'' @ pad2 (HourOf t)"

definition FormatMinute :: "time \<Rightarrow> string" where
  "FormatMinute t = FormatHour t @ ''-'' @ pad2 (MinuteOf t)"

definition FormatDateTime :: "time \<Rightarrow> string" where
  "FormatDateTime t =
     FormatDay t @ '' '' @ pad2 (HourOf t) @ '':'' @ pad2 (MinuteOf t) @ '':'' @ pad2 (SecondOf t)"

section \<open>The stores\<close>

text \<open>
  The rows of the SQLite tables. \<open>ScreenshotRecord\<close> is an observation;
  \<open>PeriodSummary\<close> a period rollup; \<open>HourSummary\<close> the rollup of an hour bucket
  kept by the batch analyzer. (Fields whose names occur in two structs carry a suffix.)
\<close>

record ScreenshotRecord =
  ID :: string
  Timestamp :: time
  ScreenID :: int
  ImagePath :: string
  Analysis_sr :: string
  HourKey :: string

record HourSummary =
  HourKey_hs :: string
  Date_hs :: time
  Hour_hs :: int
  Screenshots_hs :: string
  Summary_hs :: string

record PeriodSummary =
  PeriodKey :: string
  PeriodType :: string
  StartTime :: time
  EndTime :: time
  Screenshots :: string
  Summary :: string
  Analysis :: string

text \<open>
  The state a run works on: the three tables, the report files (path and content), and
  the log of the calls made to the analyzer. A table is the list of its rows in the
  order of their insertion; \<open>INSERT OR REPLACE\<close> removes the row with the same key
  and appends the new one. SQL errors are not modelled: every statement succeeds.
  The database compares the RFC 3339 texts of two timestamps; the model compares the
  instants.
\<close>

record world =
  screenshots :: "ScreenshotRecord list"
  hour_summaries :: "HourSummary list"
  period_summaries :: "PeriodSummary list"
  files :: "(string \<times> string) list"
  calls :: "call list"


definition permuting :: "(string list \<Rightarrow> string list) \<Rightarrow> bool" where
  "permuting order \<longleftrightarrow> (\<forall>ks. mset (order ks) = mset ks)"

text \<open>\<open>WorkHoursConfig\<close> and \<open>IsWorkTime\<close>.\<close>

record WorkHoursConfig =
  StartHour :: int
  StartMinute :: int
  EndHour :: int
  EndMinute :: int

definition IsWorkTime :: "WorkHoursConfig \<Rightarrow> time \<Rightarrow> bool" where
  "IsWorkTime wh t =
     (if StartHour wh = 0 \<and> StartMinute wh = 0 \<and> EndHour wh = 0 \<and> EndMinute wh = 0 then True
      else
        (let currentMinutes = HourOf t * 60 + MinuteOf t;
             startMinutes = StartHour wh * 60 + StartMinute wh;
             endMinutes = EndHour wh * 60 + EndMinute wh
         in if endMinutes < startMinutes
            then currentMinutes \<ge> startMinutes \<or> currentMinutes < endMinutes
            else currentMinutes \<ge> startMinutes \<and> currentMinutes < endMinutes))"

text \<open>
  What a run is given besides the state: the analyzer, the iteration order of Go maps,
  the clock (\<open>time.Now()\<close>, one instant for the run) and the configuration. The
  content store (\<open>FileSystemStorage\<close>, which finds and parses the report files) is
  not among the sources of the repository: its two read operations,
  \<open>GetPeriodSummary\<close> and \<open>QueryPeriodSummaries\<close>, are parameters
  \<open>ContentGet\<close> and \<open>ContentQuery\<close> that read the files of the state.
\<close>

record env =
  Analyzer :: analyzer
  mapOrder :: "string list \<Rightarrow> string list"
  now :: time
  WorkHours :: WorkHoursConfig
  ReportsPath :: string
  ContentGet :: "(string \<times> string) list \<Rightarrow> string \<Rightarrow> PeriodSummary option"
  ContentQuery :: "(string \<times> string) list \<Rightarrow> string \<Rightarrow> time \<Rightarrow> time \<Rightarrow> PeriodSummary list"

subsection \<open>\<open>SQLiteStorage\<close>\<close>

definition GetScreenshotsByHourKey :: "world \<Rightarrow> string \<Rightarrow> ScreenshotRecord list" where
  "GetScreenshotsByHourKey w hourKey =
     sort_key Timestamp (filter (\<lambda>s. HourKey s = hourKey) (screenshots w))"

definition QueryByDateRange :: "world \<Rightarrow> time \<Rightarrow> time \<Rightarrow> ScreenshotRecord list" where
  "QueryByDateRange w start end' =
     sort_key Timestamp (filter (\<lambda>s. Timestamp s \<ge> start \<and> Timestamp s \<le> end') (screenshots w))"

definition UpdateScreenshotAnalysis :: "world \<Rightarrow> string \<Rightarrow> string \<Rightarrow> world" where
  "UpdateScreenshotAnalysis w id' analysis =
     w\<lparr>screenshots := map (\<lambda>s. if ID s = id' then s\<lparr>Analysis_sr := analysis\<rparr> else s) (screenshots w)\<rparr>"

definition GetHourSummary :: "world \<Rightarrow> string \<Rightarrow> HourSummary option" where
  "GetHourSummary w hourKey = find (\<lambda>h. HourKey_hs h = hourKey) (hour_summaries w)"


definition GetPeriodSummary_db :: "world \<Rightarrow> string \<Rightarrow> PeriodSummary option" where
  "GetPeriodSummary_db w periodKey = find (\<lambda>p. PeriodKey p = periodKey) (period_summaries w)"

definition SavePeriodSummary :: "world \<Rightarrow> PeriodSummary \<Rightarrow> world" where
  "SavePeriodSummary w p =
     w\<lparr>period_summaries := filter (\<lambda>x. PeriodKey x \<noteq> PeriodKey p) (period_summaries w) @ [p]\<rparr>"

definition QueryPeriodSummaries_db :: "world \<Rightarrow> string \<Rightarrow> time \<Rightarrow> time \<Rightarrow> PeriodSummary list" where
  "QueryPeriodSummaries_db w periodType start end' =
     sort_key StartTime
       (filter (\<lambda>p. PeriodType p = periodType \<and> StartTime p \<ge> start \<and> EndTime p \<le> end')
          (period_summaries w))"

subsection \<open>\<open>ReportStorage\<close> and \<open>NewStorage\<close>\<close>

text \<open>
  \<open>NewStorage\<close> gives the SQLite store alone when no reports path is configured,
  and otherwise the hybrid store: the metadata rows, each replaced by the content of its
  report file when the content store finds one (keeping the ids of the row), a
  placeholder row never. Saving writes the metadata only.
\<close>

definition enrich :: "env \<Rightarrow> world \<Rightarrow> PeriodSummary \<Rightarrow> PeriodSummary" where
  "enrich e w metadataSummary =
     (if ReportsPath e = [] then metadataSummary
      else if Summary metadataSummary = placeholderMarker then metadataSummary
      else (case ContentGet e (files w) (PeriodKey metadataSummary) of
              Some contentSummary \<Rightarrow> contentSummary\<lparr>Screenshots := Screenshots metadataSummary\<rparr>
            | None \<Rightarrow> metadataSummary))"

definition GetPeriodSummary :: "env \<Rightarrow> world \<Rightarrow> string \<Rightarrow> PeriodSummary option" where
  "GetPeriodSummary e w periodKey = map_option (enrich e w) (GetPeriodSummary_db w periodKey)"

definition QueryPeriodSummaries :: "env \<Rightarrow> world \<Rightarrow> string \<Rightarrow> time \<Rightarrow> time \<Rightarrow> PeriodSummary list" where
  "QueryPeriodSummaries e w periodType start end' =
     map (enrich e w) (QueryPeriodSummaries_db w periodType start end')"





section \<open>Batch observation analyzer\<close>








subsection \<open>The roll-up of an hour bucket\<close>











lemma length_GetScreenshotsByHourKey_ids:
  "length (map ID (GetScreenshotsByHourKey w k)) = length (GetScreenshotsByHourKey w k)"
  by simp










lemma UpdateScreenshotAnalysis_hour [simp]:
  "GetHourSummary (UpdateScreenshotAnalysis w i a) k = GetHourSummary w k"
  by (simp add: UpdateScreenshotAnalysis_def GetHourSummary_def)




section \<open>Consistency manager: \<open>validate\<close>\<close>

text \<open>\<open>fmt.Sprintf("%d", n)\<close> for an integer.\<close>

definition itoaInt :: "int \<Rightarrow> string" where
  "itoaInt n = (if n < 0 then ''-'' @ itoa (nat (- n)) else itoa (nat n))"

definition mondayOf :: "time \<Rightarrow> time" where
  "mondayOf t = (let weekday = (if Weekday t = 0 then 7 else Weekday t)
                 in AddDate t 0 0 (- (weekday - 1)))"

definition quarterOf :: "time \<Rightarrow> int" where
  "quarterOf t = (Month t - 1) div 3 + 1"

definition BuildPeriodKeyFromStartTime :: "time \<Rightarrow> string \<Rightarrow> string" where
  "BuildPeriodKeyFromStartTime startTime periodType =
     (if periodType = ''fifteenmin'' then FormatMinute startTime
      else if periodType = ''hour'' then FormatHour startTime
      else if periodType = ''day'' then FormatDay startTime
      else if periodType = ''week'' then FormatDay (mondayOf startTime) @ ''-week''
      else if periodType = ''month'' then FormatMonth startTime
      else if periodType = ''quarter'' then itoaInt (Year startTime) @ ''-Q'' @ itoaInt (quarterOf startTime)
      else if periodType = ''year'' then FormatYear startTime
      else [])"

text \<open>
  A Go \<open>map[string]*PeriodSummary\<close>: the keys in the order of their first insertion,
  each with the value assigned to it last.
\<close>

fun mapPut :: "string \<Rightarrow> 'v \<Rightarrow> (string \<times> 'v) list \<Rightarrow> (string \<times> 'v) list" where
  "mapPut k v [] = [(k, v)]"
| "mapPut k v ((k', v') # m) = (if k' = k then (k, v) # m else (k', v') # mapPut k v m)"

definition summaryMap :: "PeriodSummary list \<Rightarrow> (string \<times> PeriodSummary) list" where
  "summaryMap summaries = foldl (\<lambda>m s. mapPut (PeriodKey s) s m) [] summaries"

text \<open>The entries of a map in the order of \<open>range\<close>.\<close>

definition rangeOver :: "env \<Rightarrow> (string \<times> 'v) list \<Rightarrow> (string \<times> 'v) list" where
  "rangeOver e m = concat (map (\<lambda>k. case map_of m k of Some v \<Rightarrow> [(k, v)] | None \<Rightarrow> []) (mapOrder e (map fst m)))"

text \<open>
  The body of the loop of \<open>runValidate\<close> over the period types, for one type. In
  rebuild mode the files are read through the content store and the metadata through
  the store; otherwise both lists come from the same query of the store. The first loop
  only counts the metadata records without a file. The second visits the files: one
  whose key is not among the metadata records is an issue, and with \<open>--fix\<close> or
  \<open>--rebuild-db\<close> it is saved as a metadata record, under the key built from its
  recorded start time when there is one and it differs.
\<close>

record validateTotals =
  totalChecked :: nat
  totalIssues :: nat
  totalFixed :: nat

definition fileMissing :: "(string \<times> PeriodSummary) list \<Rightarrow> (string \<times> PeriodSummary) \<Rightarrow> bool" where
  "fileMissing fsMap entry \<longleftrightarrow>
     Summary (snd entry) \<noteq> placeholderMarker \<and> map_of fsMap (fst entry) = None"

definition restoreFile ::
  "bool \<Rightarrow> string \<Rightarrow> (string \<times> PeriodSummary) list \<Rightarrow> world \<times> validateTotals
     \<Rightarrow> (string \<times> PeriodSummary) \<Rightarrow> world \<times> validateTotals" where
  "restoreFile fix periodType dbMap acc entry =
     (let (w, t) = acc; periodKey = fst entry; fsSummary = snd entry
      in if map_of dbMap periodKey = None then
           (let t1 = t\<lparr>totalChecked := totalChecked t + 1, totalIssues := totalIssues t + 1\<rparr>
            in if fix then
                 (let correctedKey = BuildPeriodKeyFromStartTime (StartTime fsSummary) periodType;
                      fsSummary' = (if correctedKey \<noteq> [] \<and> correctedKey \<noteq> periodKey
                                    then fsSummary\<lparr>PeriodKey := correctedKey\<rparr> else fsSummary)
                  in (SavePeriodSummary w fsSummary', t1\<lparr>totalFixed := totalFixed t1 + 1\<rparr>))
               else (w, t1))
         else (w, t))"

definition validatePeriodType ::
  "env \<Rightarrow> bool \<Rightarrow> bool \<Rightarrow> string \<Rightarrow> time \<Rightarrow> time \<Rightarrow> world \<times> validateTotals \<Rightarrow> world \<times> validateTotals" where
  "validatePeriodType e validateFix validateRebuildDB periodType startTime endTime acc =
     (let (w, t) = acc;
          fix = validateFix \<or> validateRebuildDB
      in if validateRebuildDB \<and> ReportsPath e = [] then acc
         else
           (let dbSummaries = QueryPeriodSummaries e w periodType startTime endTime;
                fsSummaries = (if validateRebuildDB
                               then ContentQuery e (files w) periodType startTime endTime
                               else QueryPeriodSummaries e w periodType startTime endTime);
                dbMap = summaryMap dbSummaries;
                fsMap = summaryMap fsSummaries;
                missing = length (filter (fileMissing fsMap) dbMap);
                t1 = t\<lparr>totalChecked := totalChecked t + length dbMap,
                       totalIssues := totalIssues t + missing\<rparr>
            in foldl (restoreFile fix periodType dbMap) (w, t1) (rangeOver e fsMap)))"

subsection \<open>What a rebuild restores\<close>

text \<open>
  The key under which the record of a file is saved: the key built from the start time
  recorded in the file, and the key the file came with when none is built (a
  work-segment, whose key holds the number of the segment).
\<close>

definition restoredKey :: "string \<Rightarrow> PeriodSummary \<Rightarrow> string" where
  "restoredKey periodType f =
     (if BuildPeriodKeyFromStartTime (StartTime f) periodType = [] then PeriodKey f
      else BuildPeriodKeyFromStartTime (StartTime f) periodType)"

definition restored :: "string \<Rightarrow> PeriodSummary \<Rightarrow> PeriodSummary" where
  "restored periodType f = f\<lparr>PeriodKey := restoredKey periodType f\<rparr>"

lemma map_of_mapPut: "map_of (mapPut k v m) = (map_of m)(k \<mapsto> v)"
  by (induction m) auto

lemma mapPut_keys: "fst ` set (mapPut k v m) = insert k (fst ` set m)"
proof -
  have "dom (map_of (mapPut k v m)) = insert k (dom (map_of m))"
    by (simp add: map_of_mapPut)
  then show ?thesis by (simp add: dom_map_of_conv_image_fst)
qed

lemma mapPut_fresh: "map_of m k = None \<Longrightarrow> mapPut k v m = m @ [(k, v)]"
  by (induction m) auto

lemma summaryMap_snoc: "summaryMap (xs @ [s]) = mapPut (PeriodKey s) s (summaryMap xs)"
  by (simp add: summaryMap_def)

lemma summaryMap_keys: "fst ` set (summaryMap xs) = PeriodKey ` set xs"
  by (induction xs rule: rev_induct) (auto simp: summaryMap_snoc mapPut_keys summaryMap_def)

lemma summaryMap_distinct:
  "distinct (map PeriodKey xs) \<Longrightarrow> summaryMap xs = map (\<lambda>s. (PeriodKey s, s)) xs"
proof (induction xs rule: rev_induct)
  case Nil
  then show ?case by (simp add: summaryMap_def)
next
  case (snoc s xs)
  from snoc.prems have "PeriodKey s \<notin> fst ` set (summaryMap xs)"
    by (simp only: summaryMap_keys) auto
  then have "map_of (summaryMap xs) (PeriodKey s) = None"
    by (simp add: map_of_eq_None_iff)
  with snoc show ?case by (simp add: summaryMap_snoc mapPut_fresh)
qed

lemma map_of_summaryMap_None:
  "map_of (summaryMap xs) k = None \<longleftrightarrow> k \<notin> PeriodKey ` set xs"
  by (simp add: map_of_eq_None_iff summaryMap_keys)

lemma rangeOver_perm:
  assumes "permuting (mapOrder e)" and "distinct (map fst m)"
  shows "mset (rangeOver e m) = mset m"
proof -
  have one: "(case map_of m k of Some v \<Rightarrow> [(k, v)] | None \<Rightarrow> []) = filter (\<lambda>p. fst p = k) m" for k
    using assms(2)
  proof (induction m)
    case Nil
    then show ?case by simp
  next
    case (Cons p m)
    then have "fst p \<notin> fst ` set m" by auto
    then have "filter (\<lambda>q. fst q = fst p) m = []" by (auto simp: filter_empty_conv image_iff)
    moreover have "k \<noteq> fst p \<Longrightarrow> filter (\<lambda>q. fst q = k) (p # m) = filter (\<lambda>q. fst q = k) m" by auto
    ultimately show ?case using Cons by (cases p) auto
  qed
  have gen: "mset (concat (map (\<lambda>k. filter (\<lambda>p. fst p = k) m) ks)) = mset m"
    if "mset ks = mset (map fst m)" for ks
  proof -
    have "mset (concat (map (\<lambda>k. filter (\<lambda>p. fst p = k) m) ks))
          = (\<Sum>k\<in>#mset ks. mset (filter (\<lambda>p. fst p = k) m))"
      by (induction ks) auto
    also have "\<dots> = (\<Sum>k\<in>#mset (map fst m). mset (filter (\<lambda>p. fst p = k) m))"
      by (simp only: that)
    also have "\<dots> = mset m"
      using assms(2)
    proof (induction m)
      case Nil
      then show ?case by simp
    next
      case (Cons p m)
      then have nf: "fst p \<notin> fst ` set m" by auto
      then have a: "filter (\<lambda>q. fst q = fst p) m = []" by (auto simp: filter_empty_conv image_iff)
      have b: "(\<Sum>k\<in>#mset (map fst m). mset (filter (\<lambda>q. fst q = k) (p # m)))
             = (\<Sum>k\<in>#mset (map fst m). mset (filter (\<lambda>q. fst q = k) m))"
        using nf by (intro arg_cong[where f=sum_mset] image_mset_cong) auto
      show ?case using Cons a b by simp
    qed
    finally show ?thesis .
  qed
  have "mset (mapOrder e (map fst m)) = mset (map fst m)"
    using assms(1) by (simp add: permuting_def)
  from gen[OF this] show ?thesis by (simp add: rangeOver_def one)
qed

lemma GetPeriodSummary_db_Save:
  "GetPeriodSummary_db (SavePeriodSummary w p) k
     = (if k = PeriodKey p then Some p else GetPeriodSummary_db w k)"
proof -
  have "find (\<lambda>x. PeriodKey x = k) (filter (\<lambda>x. PeriodKey x \<noteq> PeriodKey p) xs @ [p])
        = (if k = PeriodKey p then Some p else find (\<lambda>x. PeriodKey x = k) xs)"
    for xs :: "PeriodSummary list"
    by (induction xs) auto
  then show ?thesis by (simp add: GetPeriodSummary_db_def SavePeriodSummary_def)
qed

lemma count_Save:
  "length (filter (\<lambda>x. PeriodKey x = k) (period_summaries (SavePeriodSummary w p)))
     = (if k = PeriodKey p then 1 else length (filter (\<lambda>x. PeriodKey x = k) (period_summaries w)))"
proof -
  have "length (filter (\<lambda>x. PeriodKey x = k) (filter (\<lambda>x. PeriodKey x \<noteq> PeriodKey p) xs @ [p]))
        = (if k = PeriodKey p then 1 else length (filter (\<lambda>x. PeriodKey x = k) xs))"
    for xs :: "PeriodSummary list"
    by (induction xs) auto
  then show ?thesis by (simp add: SavePeriodSummary_def)
qed

lemma saves_lookup:
  "p \<in> set L \<Longrightarrow> PeriodKey p = k \<Longrightarrow>
   \<exists>g\<in>set L. PeriodKey g = k \<and> GetPeriodSummary_db (foldl SavePeriodSummary w L) k = Some g
     \<and> length (filter (\<lambda>x. PeriodKey x = k) (period_summaries (foldl SavePeriodSummary w L))) = 1"
proof (induction L rule: rev_induct)
  case Nil
  then show ?case by simp
next
  case (snoc q L)
  show ?case
  proof (cases "PeriodKey q = k")
    case True
    then show ?thesis by (auto simp: GetPeriodSummary_db_Save count_Save)
  next
    case False
    with snoc.prems have "p \<in> set L" by auto
    from snoc.IH[OF this snoc.prems(2)] False show ?thesis
      by (auto simp: GetPeriodSummary_db_Save count_Save)
  qed
qed

lemma restoreFile_world:
  "fst (foldl (restoreFile True periodType dbMap) (w, t) entries)
     = foldl SavePeriodSummary w
         (map (\<lambda>entry. restored periodType (snd entry))
            (filter (\<lambda>entry. map_of dbMap (fst entry) = None) entries))"
  if "\<forall>entry\<in>set entries. PeriodKey (snd entry) = fst entry"
  using that
proof (induction entries arbitrary: w t)
  case Nil
  then show ?case by simp
next
  case (Cons entry entries)
  have k: "PeriodKey (snd entry) = fst entry" using Cons.prems by simp
  have r: "(if BuildPeriodKeyFromStartTime (StartTime (snd entry)) periodType \<noteq> []
              \<and> BuildPeriodKeyFromStartTime (StartTime (snd entry)) periodType \<noteq> fst entry
            then (snd entry)\<lparr>PeriodKey := BuildPeriodKeyFromStartTime (StartTime (snd entry)) periodType\<rparr>
            else snd entry) = restored periodType (snd entry)"
    using k by (auto simp: restored_def restoredKey_def)
  obtain w1 t1 where s: "restoreFile True periodType dbMap (w, t) entry = (w1, t1)"
    by (cases "restoreFile True periodType dbMap (w, t) entry")
  have w1: "w1 = (if map_of dbMap (fst entry) = None
                  then SavePeriodSummary w (restored periodType (snd entry)) else w)"
    using s r by (auto simp: restoreFile_def Let_def split: if_splits)
  from Cons.prems have "\<forall>entry\<in>set entries. PeriodKey (snd entry) = fst entry" by simp
  from Cons.IH[OF this, of w1 t1] show ?case
    by (simp add: s w1)
qed

lemma validate_rebuild_unfold:
  assumes "ReportsPath e \<noteq> []"
  shows "\<exists>t1. validatePeriodType e validateFix True periodType startTime endTime (w, t)
        = foldl (restoreFile True periodType
                   (summaryMap (QueryPeriodSummaries e w periodType startTime endTime)))
            (w, t1)
            (rangeOver e (summaryMap (ContentQuery e (files w) periodType startTime endTime)))"
proof -
  have "validatePeriodType e validateFix True periodType startTime endTime (w, t)
        = foldl (restoreFile True periodType
                   (summaryMap (QueryPeriodSummaries e w periodType startTime endTime)))
            (w, t\<lparr>totalChecked := totalChecked t
                       + length (summaryMap (QueryPeriodSummaries e w periodType startTime endTime)),
                   totalIssues := totalIssues t
                       + length (filter (fileMissing (summaryMap (ContentQuery e (files w) periodType startTime endTime)))
                                   (summaryMap (QueryPeriodSummaries e w periodType startTime endTime)))\<rparr>)
            (rangeOver e (summaryMap (ContentQuery e (files w) periodType startTime endTime)))"
    using assms by (simp add: validatePeriodType_def Let_def)
  then show ?thesis by (rule exI)
qed

lemma rangeOver_defined: "entry \<in> set (rangeOver e m) \<Longrightarrow> map_of m (fst entry) = Some (snd entry)"
  by (auto simp: rangeOver_def split: option.splits)

lemma restoreFile_skip:
  "\<forall>entry\<in>set entries. map_of dbMap (fst entry) \<noteq> None \<Longrightarrow>
   foldl (restoreFile fix periodType dbMap) acc entries = acc"
  by (induction entries arbitrary: acc) (auto simp: restoreFile_def Let_def split: prod.splits)

lemma fix_mode_restores_nothing:
  "fst (validatePeriodType e validateFix False periodType startTime endTime (w, t)) = w"
proof -
  let ?dbMap = "summaryMap (QueryPeriodSummaries e w periodType startTime endTime)"
  have "\<forall>entry\<in>set (rangeOver e ?dbMap). map_of ?dbMap (fst entry) \<noteq> None"
  proof
    fix entry assume "entry \<in> set (rangeOver e ?dbMap)"
    from rangeOver_defined[OF this] show "map_of ?dbMap (fst entry) \<noteq> None" by simp
  qed
  from restoreFile_skip[OF this] show ?thesis
    by (simp add: validatePeriodType_def Let_def)
qed

section \<open>Claims about the text merger\<close>

text \<open>
  C5. For every ordered fragment list given to the text merger: an empty list yields an
  error; a single fragment is returned as it is, with no summarizer call; a list of 2 to
  20 fragments is reduced by sequential rolling pairwise merges seeded with the first
  fragment, one pairwise-merge call per remaining fragment when no call fails (the first
  failing call ends the reduction with an error); a list of more than 20 fragments is
  reduced by levelwise tree reduction pairing the adjacent indices \<open>(2i, 2i+1)\<close>, an odd
  trailing fragment carried unchanged to the next level, until one fragment remains.
  The order in which the pair results of a level arrive is arbitrary (\<open>fair\<close>).
\<close>

theorem text_merger_reduction:
  "fair arrival \<Longrightarrow>
     processRollingSummaryWithTimeContext an arrival [] tc = (Inl ''no summaries to process'', [])
   \<and> (\<forall>a. processRollingSummaryWithTimeContext an arrival [a] tc = (Inr a, []))
   \<and> (\<forall>xs. 2 \<le> length xs \<and> length xs \<le> 20 \<longrightarrow>
          processRollingSummaryWithTimeContext an arrival xs tc = rollingSpec an tc 1 (hd xs) (tl xs)
        \<and> (\<forall>r. fst (processRollingSummaryWithTimeContext an arrival xs tc) = Inr r \<longrightarrow>
               length (snd (processRollingSummaryWithTimeContext an arrival xs tc)) = length xs - 1))
   \<and> (\<forall>xs. 20 < length xs \<longrightarrow>
          (\<exists>r. treeReduce (mergeOrConcat an tc) xs = [r]
             \<and> fst (processRollingSummaryWithTimeContext an arrival xs tc) = Inr r))"
proof (intro conjI allI impI)
  show "processRollingSummaryWithTimeContext an arrival [] tc = (Inl ''no summaries to process'', [])"
    by (simp add: processRollingSummaryWithTimeContext_def)
next
  fix a
  show "processRollingSummaryWithTimeContext an arrival [a] tc = (Inr a, [])"
    by (simp add: processRollingSummaryWithTimeContext_def)
next
  fix xs :: "string list"
  assume len: "2 \<le> length xs \<and> length xs \<le> 20"
  then obtain x rest where xs: "xs = x # rest" by (cases xs) auto
  show eq: "processRollingSummaryWithTimeContext an arrival xs tc = rollingSpec an tc 1 (hd xs) (tl xs)"
    using len
    by (simp add: processRollingSummaryWithTimeContext_def treeAggregationThreshold_def
        rollingLoop_spec xs)
  fix r
  assume "fst (processRollingSummaryWithTimeContext an arrival xs tc) = Inr r"
  then have "fst (rollingSpec an tc 1 (hd xs) (tl xs)) = Inr r" by (simp only: eq)
  from rollingSpec_calls[OF this]
  show "length (snd (processRollingSummaryWithTimeContext an arrival xs tc)) = length xs - 1"
    by (simp add: eq)
next
  fix xs :: "string list"
  assume f: "fair arrival" and len: "20 < length xs"
  then have ne: "xs \<noteq> []" by auto
  have "processRollingSummaryWithTimeContext an arrival xs tc
          = processTreeAggregationWithTimeContext an arrival xs tc"
    using len ne by (simp add: processRollingSummaryWithTimeContext_def treeAggregationThreshold_def)
  with treeReduce_single[OF f ne, of an tc]
  show "\<exists>r. treeReduce (mergeOrConcat an tc) xs = [r]
             \<and> fst (processRollingSummaryWithTimeContext an arrival xs tc) = Inr r"
    by simp
qed

theorem text_merger_reduction_witness:
  "fair rev
   \<and> processRollingSummaryWithTimeContext appendingAnalyzer rev [''a'', ''b'', ''c''] []
       = (Inr ''a+b+c'', [CallRolling ''a'' ''b'' [], CallRolling ''a+b'' ''c'' []])
   \<and> (\<exists>r. treeReduce (mergeOrConcat appendingAnalyzer []) (replicate 21 ''x'') = [r]
          \<and> fst (processRollingSummaryWithTimeContext appendingAnalyzer rev (replicate 21 ''x'') []) = Inr r)"
proof -
  note t = text_merger_reduction[OF fair_rev, of appendingAnalyzer "[]"]
  from t have
    "\<forall>xs. 2 \<le> length xs \<and> length xs \<le> 20 \<longrightarrow>
        processRollingSummaryWithTimeContext appendingAnalyzer rev xs []
          = rollingSpec appendingAnalyzer [] 1 (hd xs) (tl xs)"
    by blast
  from this[rule_format, of "[''a'', ''b'', ''c'']"]
  have a: "processRollingSummaryWithTimeContext appendingAnalyzer rev [''a'', ''b'', ''c''] []
             = (Inr ''a+b+c'', [CallRolling ''a'' ''b'' [], CallRolling ''a+b'' ''c'' []])"
    by (simp add: appendingAnalyzer_def)
  from t have
    "\<forall>xs. 20 < length xs \<longrightarrow>
       (\<exists>r. treeReduce (mergeOrConcat appendingAnalyzer []) xs = [r]
          \<and> fst (processRollingSummaryWithTimeContext appendingAnalyzer rev xs []) = Inr r)"
    by blast
  from this[rule_format, of "replicate 21 ''x''"]
  have b: "\<exists>r. treeReduce (mergeOrConcat appendingAnalyzer []) (replicate 21 ''x'') = [r]
          \<and> fst (processRollingSummaryWithTimeContext appendingAnalyzer rev (replicate 21 ''x'') []) = Inr r"
    by simp
  show ?thesis using fair_rev a b by blast
qed

text \<open>
  C9. In tree reduction, for every level and every pair of fragments at adjacent indices
  \<open>(2i, 2i+1)\<close> whose pairwise merge fails, that pair's result is the concatenation of
  the two fragments (with an empty line between them); the next level of the loop is
  that level's result; and the reduction of a non-empty list still completes and
  returns a merged result rather than the error.
\<close>

theorem tree_merge_failure_concatenates:
  "fair arrival \<Longrightarrow>
     (\<forall>lvl i e. 2 * i + 1 < length lvl
          \<and> GenerateRollingSummaryWithContext an (lvl ! (2 * i)) (lvl ! (2 * i + 1)) tc = Inl e \<longrightarrow>
          treeLevel an arrival tc lvl ! i = (lvl ! (2 * i)) @ [LF, LF] @ (lvl ! (2 * i + 1)))
   \<and> (\<forall>lvl. 1 < length lvl \<longrightarrow>
          fst (treeLoop an arrival tc lvl) = fst (treeLoop an arrival tc (treeLevel an arrival tc lvl)))
   \<and> (\<forall>summaries. summaries \<noteq> [] \<longrightarrow>
          (\<exists>r. fst (processTreeAggregationWithTimeContext an arrival summaries tc) = Inr r))"
proof (intro conjI allI impI)
  fix lvl :: "string list" and i e
  assume f: "fair arrival"
    and h: "2 * i + 1 < length lvl
      \<and> GenerateRollingSummaryWithContext an (lvl ! (2 * i)) (lvl ! (2 * i + 1)) tc = Inl e"
  then have i: "i < (length lvl + 1) div 2" by auto
  show "treeLevel an arrival tc lvl ! i = (lvl ! (2 * i)) @ [LF, LF] @ (lvl ! (2 * i + 1))"
    using h by (simp add: treeLevel_nth[OF f i] pairJob_def)
next
  fix lvl :: "string list"
  assume "1 < length lvl"
  then show "fst (treeLoop an arrival tc lvl) = fst (treeLoop an arrival tc (treeLevel an arrival tc lvl))"
    by (subst treeLoop.simps) (simp add: case_prod_beta)
next
  fix summaries :: "string list"
  assume "fair arrival" and "summaries \<noteq> []"
  from treeReduce_single[OF this, of an tc]
  show "\<exists>r. fst (processTreeAggregationWithTimeContext an arrival summaries tc) = Inr r"
    by blast
qed

theorem tree_merge_failure_concatenates_witness:
  "fair rev
   \<and> treeLevel failingAnalyzer rev [] [''a'', ''b'', ''c''] ! 0 = ''a'' @ [LF, LF] @ ''b''
   \<and> (\<exists>r. fst (processTreeAggregationWithTimeContext failingAnalyzer rev [''a'', ''b'', ''c''] []) = Inr r)"
proof -
  note t = tree_merge_failure_concatenates[OF fair_rev, of failingAnalyzer "[]"]
  from t have
    "\<forall>lvl i e. 2 * i + 1 < length lvl
          \<and> GenerateRollingSummaryWithContext failingAnalyzer (lvl ! (2 * i)) (lvl ! (2 * i + 1)) [] = Inl e \<longrightarrow>
          treeLevel failingAnalyzer rev [] lvl ! i = (lvl ! (2 * i)) @ [LF, LF] @ (lvl ! (2 * i + 1))"
    by blast
  from this[rule_format, of 0 "[''a'', ''b'', ''c'']" "''status 503''"]
  have a: "treeLevel failingAnalyzer rev [] [''a'', ''b'', ''c''] ! 0 = ''a'' @ [LF, LF] @ ''b''"
    by (simp add: failingAnalyzer_def)
  from t have
    "\<forall>summaries. summaries \<noteq> [] \<longrightarrow>
       (\<exists>r. fst (processTreeAggregationWithTimeContext failingAnalyzer rev summaries []) = Inr r)"
    by blast
  from this[rule_format, of "[''a'', ''b'', ''c'']"]
  have b: "\<exists>r. fst (processTreeAggregationWithTimeContext failingAnalyzer rev [''a'', ''b'', ''c''] []) = Inr r"
    by simp
  show ?thesis using fair_rev a b by blast
qed

section \<open>Claims about the classifiers\<close>

text \<open>
  C8. On the input that is exactly the phrase "no valid work activity was detected"
  (\<open>noWorkPhrase\<close>), the invalid-summary classifier returns true and the
  has-valid-work-activity classifier returns false; and for every input consisting of
  that phrase prefixed by a work description with 300 or more letters and digits
  (whatever else it holds), the invalid-summary classifier returns false.
\<close>

theorem classifier_boundary:
  "isInvalidSummary noWorkPhrase
   \<and> \<not> hasValidWorkActivity noWorkPhrase
   \<and> (\<forall>description. 300 \<le> wordChars description \<longrightarrow> \<not> isInvalidSummary (description @ noWorkPhrase))"
proof (intro conjI allI impI)
  show "isInvalidSummary noWorkPhrase" by code_simp
  show "\<not> hasValidWorkActivity noWorkPhrase" by code_simp
next
  fix description
  assume "300 \<le> wordChars description"
  then have "50 \<le> wordChars (description @ noWorkPhrase)" by (simp add: wordChars_def)
  then show "\<not> isInvalidSummary (description @ noWorkPhrase)" by (rule wordy_not_invalid)
qed

theorem classifier_boundary_witness:
  "300 \<le> wordChars (replicate 300 CHR ''a'') \<and> \<not> isInvalidSummary (replicate 300 CHR ''a'' @ noWorkPhrase)"
proof -
  have w: "300 \<le> wordChars (replicate 300 CHR ''a'')"
    by (simp add: wordChars_def isAlnum_def)
  from classifier_boundary have
    "\<forall>description. 300 \<le> wordChars description \<longrightarrow> \<not> isInvalidSummary (description @ noWorkPhrase)"
    by blast
  from this[rule_format, OF w] w show ?thesis by blast
qed

section \<open>Claims about the batch analyzer\<close>












section \<open>Claims about the consistency manager\<close>

text \<open>
  The content stores of the counterexample and the witness hold one report file each:
  the report of a work segment, and the report of the hour starting at 10:00 found at
  the place of the hour 11.
\<close>

definition misplacedHourFile :: PeriodSummary where
  "misplacedHourFile =
     \<lparr>PeriodKey = ''2025-11-21-11'', PeriodType = ''hour'',
      StartTime = Date 2025 11 21 10 0 0, EndTime = Date 2025 11 21 10 59 59,
      Screenshots = ''s1,s2'', Summary = ''Wrote the parser of the report files.'', Analysis = []\<rparr>"

definition segmentFile :: PeriodSummary where
  "segmentFile =
     \<lparr>PeriodKey = ''2025-11-21-segment-0'', PeriodType = ''work-segment'',
      StartTime = Date 2025 11 21 9 30 0, EndTime = Date 2025 11 21 11 30 0,
      Screenshots = ''s1,s2'', Summary = ''Wrote the parser of the report files.'', Analysis = []\<rparr>"

definition filesEnv :: "PeriodSummary list \<Rightarrow> env" where
  "filesEnv found =
     \<lparr>Analyzer = failingAnalyzer, mapOrder = rev, now = Date 2025 11 22 9 0 0,
      WorkHours = \<lparr>StartHour = 0, StartMinute = 0, EndHour = 0, EndMinute = 0\<rparr>,
      ReportsPath = ''reports'',
      ContentGet = (\<lambda>fs k. find (\<lambda>s. PeriodKey s = k) found),
      ContentQuery = (\<lambda>fs t s e. filter (\<lambda>p. PeriodType p = t) found)\<rparr>"

definition emptyWorld :: world where
  "emptyWorld = \<lparr>screenshots = [], hour_summaries = [], period_summaries = [], files = [], calls = []\<rparr>"

definition noTotals :: validateTotals where
  "noTotals = \<lparr>totalChecked = 0, totalIssues = 0, totalFixed = 0\<rparr>"

definition segmentRebuilt :: world where
  "segmentRebuilt =
     fst (validatePeriodType (filesEnv [segmentFile]) False True ''work-segment''
            (Date 2020 1 1 0 0 0) (Date 2025 11 30 23 59 59) (emptyWorld, noTotals))"

text \<open>
  C10, as stated: for every content-store report file in the scanned range that has no
  corresponding metadata record, running validate in fix or rebuild mode creates exactly
  one new metadata record for it, and that record's period key equals the key
  re-derived from the file's recorded start time. It fails for the report of a work
  segment: no key is derived from a start time for that period type (the result is the
  empty string), and the record is saved under the key the file came with.
\<close>

theorem rebuild_key_counterexample:
  "map PeriodKey (period_summaries segmentRebuilt) = [''2025-11-21-segment-0'']
   \<and> map StartTime (period_summaries segmentRebuilt) = [StartTime segmentFile]
   \<and> BuildPeriodKeyFromStartTime (StartTime segmentFile) ''work-segment'' = []
   \<and> map PeriodKey (period_summaries segmentRebuilt)
       \<noteq> [BuildPeriodKeyFromStartTime (StartTime segmentFile) ''work-segment'']"
  by code_simp

text \<open>
  C10, amended: in rebuild mode, for every report file that the content store returns
  for the scanned period type and range (one file per key) and whose key is not among
  the metadata records of that type and range, validate saves a metadata record under
  the key re-derived from the file's recorded start time, or under the file's own key
  when no key is derived for the period type (work-segment), even when that key differs
  from the key derived from the file's path; afterwards the table holds exactly one
  record under that key, which carries the content of such a file, and of this file
  when no other such file leads to the same key. The files are visited in any order.
\<close>

theorem rebuild_restores_metadata:
  assumes "permuting (mapOrder e)" and "ReportsPath e \<noteq> []"
    and "fs = ContentQuery e (files w) periodType startTime endTime"
    and "distinct (map PeriodKey fs)"
    and "f \<in> set fs"
    and "PeriodKey f \<notin> PeriodKey ` set (QueryPeriodSummaries e w periodType startTime endTime)"
    and "w' = fst (validatePeriodType e validateFix True periodType startTime endTime (w, t))"
  shows "\<exists>g. GetPeriodSummary_db w' (restoredKey periodType f) = Some g
           \<and> PeriodKey g = restoredKey periodType f
           \<and> (\<exists>f'\<in>set fs.
                 PeriodKey f' \<notin> PeriodKey ` set (QueryPeriodSummaries e w periodType startTime endTime)
                 \<and> g = restored periodType f')
           \<and> ((\<forall>f'\<in>set fs.
                  PeriodKey f' \<notin> PeriodKey ` set (QueryPeriodSummaries e w periodType startTime endTime)
                  \<and> restoredKey periodType f' = restoredKey periodType f \<longrightarrow> f' = f)
                \<longrightarrow> g = restored periodType f)
           \<and> length (filter (\<lambda>p. PeriodKey p = restoredKey periodType f) (period_summaries w')) = 1"
proof -
  define db where "db = QueryPeriodSummaries e w periodType startTime endTime"
  define dbMap where "dbMap = summaryMap db"
  define entries where "entries = rangeOver e (summaryMap fs)"
  define orphans where "orphans = filter (\<lambda>entry. map_of dbMap (fst entry) = None) entries"
  define L where "L = map (\<lambda>entry. restored periodType (snd entry)) orphans"
  define k where "k = restoredKey periodType f"
  have fsMap: "summaryMap fs = map (\<lambda>s. (PeriodKey s, s)) fs"
    by (rule summaryMap_distinct[OF assms(4)])
  have "distinct (map fst (summaryMap fs))" using assms(4) by (simp add: fsMap comp_def)
  from rangeOver_perm[OF assms(1) this] have "set entries = set (summaryMap fs)"
    unfolding entries_def by (metis mset_eq_setD)
  then have entries: "set entries = (\<lambda>s. (PeriodKey s, s)) ` set fs" by (simp add: fsMap)
  then have keyed: "\<forall>entry\<in>set entries. PeriodKey (snd entry) = fst entry" by auto
  from validate_rebuild_unfold[OF assms(2), of validateFix periodType startTime endTime w t]
  obtain t1 where "validatePeriodType e validateFix True periodType startTime endTime (w, t)
        = foldl (restoreFile True periodType dbMap) (w, t1) entries"
    unfolding dbMap_def db_def entries_def assms(3) by blast
  then have "w' = fst (foldl (restoreFile True periodType dbMap) (w, t1) entries)"
    by (simp only: assms(7))
  also have "\<dots> = foldl SavePeriodSummary w L"
    unfolding L_def orphans_def by (rule restoreFile_world[OF keyed])
  finally have w': "w' = foldl SavePeriodSummary w L" .
  have orphan: "map_of dbMap key = None \<longleftrightarrow> key \<notin> PeriodKey ` set db" for key
    unfolding dbMap_def by (rule map_of_summaryMap_None)
  have "(PeriodKey f, f) \<in> set entries" using assms(5) by (simp add: entries)
  moreover have "map_of dbMap (PeriodKey f) = None"
    using assms(6) by (simp add: orphan db_def)
  ultimately have "(PeriodKey f, f) \<in> set orphans" by (simp add: orphans_def)
  then have "restored periodType (snd (PeriodKey f, f)) \<in> set L"
    unfolding L_def set_map by (rule imageI)
  then have inL: "restored periodType f \<in> set L" by simp
  have keyf: "PeriodKey (restored periodType f) = k" by (simp add: restored_def k_def)
  from saves_lookup[OF inL keyf, of w] obtain g where g: "g \<in> set L" "PeriodKey g = k"
    "GetPeriodSummary_db w' k = Some g"
    "length (filter (\<lambda>x. PeriodKey x = k) (period_summaries w')) = 1"
    unfolding w' by blast
  from g(1) obtain en where en: "en \<in> set orphans" "g = restored periodType (snd en)"
    unfolding L_def set_map by (rule imageE)
  from en(1) have en2: "en \<in> set entries" "map_of dbMap (fst en) = None"
    by (simp_all add: orphans_def)
  from en2(1) obtain f' where f'0: "f' \<in> set fs" "en = (PeriodKey f', f')"
    unfolding entries by (rule imageE)
  have f': "f' \<in> set fs" "PeriodKey f' \<notin> PeriodKey ` set db" "g = restored periodType f'"
    using f'0 en2(2) en(2) by (simp_all add: orphan)
  have key': "restoredKey periodType f' = k" using g(2) f'(3) by (simp add: restored_def)
  have uniq: "(\<forall>f'\<in>set fs. PeriodKey f' \<notin> PeriodKey ` set db
                  \<and> restoredKey periodType f' = k \<longrightarrow> f' = f) \<longrightarrow> g = restored periodType f"
  proof
    assume "\<forall>f'\<in>set fs. PeriodKey f' \<notin> PeriodKey ` set db \<and> restoredKey periodType f' = k \<longrightarrow> f' = f"
    with f'(1,2) key' have "f' = f" by blast
    then show "g = restored periodType f" using f'(3) by simp
  qed
  have ex: "\<exists>f'\<in>set fs. PeriodKey f' \<notin> PeriodKey ` set db \<and> g = restored periodType f'"
    using f' by blast
  show ?thesis
    unfolding k_def[symmetric] db_def[symmetric]
    using g(2,3,4) ex uniq by (intro exI[of _ g] conjI)
qed

theorem rebuild_restores_metadata_witness:
  "GetPeriodSummary_db
     (fst (validatePeriodType (filesEnv [misplacedHourFile]) False True ''hour''
            (Date 2020 1 1 0 0 0) (Date 2025 11 30 23 59 59) (emptyWorld, noTotals)))
     ''2025-11-21-10''
   = Some (misplacedHourFile\<lparr>PeriodKey := ''2025-11-21-10''\<rparr>)"
proof -
  define e where "e = filesEnv [misplacedHourFile]"
  define s where "s = Date 2020 1 1 0 0 0"
  define t where "t = Date 2025 11 30 23 59 59"
  define w' where "w' = fst (validatePeriodType e False True ''hour'' s t (emptyWorld, noTotals))"
  have h1: "permuting (mapOrder e)" by (simp add: permuting_def filesEnv_def e_def)
  have h2: "ReportsPath e \<noteq> []" by (simp add: filesEnv_def e_def)
  have h3: "[misplacedHourFile] = ContentQuery e (files emptyWorld) ''hour'' s t"
    by (simp add: filesEnv_def e_def misplacedHourFile_def)
  have h4: "distinct (map PeriodKey [misplacedHourFile])" by simp
  have h5: "misplacedHourFile \<in> set [misplacedHourFile]" by simp
  have q: "QueryPeriodSummaries e emptyWorld ''hour'' s t = []"
    by (simp add: QueryPeriodSummaries_def QueryPeriodSummaries_db_def emptyWorld_def)
  have h6: "PeriodKey misplacedHourFile \<notin> PeriodKey ` set (QueryPeriodSummaries e emptyWorld ''hour'' s t)"
    by (simp only: q) simp
  have k: "restoredKey ''hour'' misplacedHourFile = ''2025-11-21-10''" by code_simp
  from rebuild_restores_metadata[OF h1 h2 h3 h4 h5 h6 w'_def]
  obtain g where g: "GetPeriodSummary_db w' (restoredKey ''hour'' misplacedHourFile) = Some g"
    and u: "(\<forall>f'\<in>set [misplacedHourFile].
               PeriodKey f' \<notin> PeriodKey ` set (QueryPeriodSummaries e emptyWorld ''hour'' s t)
               \<and> restoredKey ''hour'' f' = restoredKey ''hour'' misplacedHourFile \<longrightarrow> f' = misplacedHourFile)
             \<longrightarrow> g = restored ''hour'' misplacedHourFile"
    by blast
  have "g = restored ''hour'' misplacedHourFile" by (rule u[rule_format]) simp
  with g have "GetPeriodSummary_db w' ''2025-11-21-10'' = Some (misplacedHourFile\<lparr>PeriodKey := ''2025-11-21-10''\<rparr>)"
    by (simp only: k restored_def)
  then show ?thesis by (simp only: w'_def e_def s_def t_def)
qed

end
